theory Spec2Isabelle
  imports Complex_Main
begin

section \<open>Errors and tensors\<close>

text \<open>
  The notebook builds its LSTM and GRU cells on PyTorch tensors. Tensor elements are
  modelled as real numbers. Every exception the Python can raise is a value of
  \<open>error\<close>: \<open>AttributeError\<close> (a method called on \<open>None\<close>), \<open>TypeError\<close> (\<open>None\<close>
  passed to a layer), \<open>ValueError\<close> (tuple unpacking of the wrong number of chunks),
  \<open>IndexError\<close>, \<open>ZeroDivisionError\<close>, and \<open>ShapeMismatchError\<close>, which stands for the
  \<open>RuntimeError\<close> PyTorch raises when shapes do not fit.
\<close>

datatype error =
  AttributeError | TypeError | ValueError | IndexError | ZeroDivisionError | ShapeMismatchError

text \<open>
  A rank-2 tensor of shape \<open>(nrows, ncols)\<close>. The column count is kept beside the rows, so
  that a tensor with no rows still has a width, as in PyTorch.
\<close>

datatype tensor = Tensor (ncols: nat) (rows: "real list list")

definition nrows :: "tensor \<Rightarrow> nat" where
  "nrows t = length (rows t)"

definition wf_tensor :: "tensor \<Rightarrow> bool" where
  "wf_tensor t = list_all (\<lambda>r. length r = ncols t) (rows t)"

text \<open>
  A rank-3 tensor of shape \<open>(length items, size1, size2)\<close>: the model's input
  \<open>batch \<times> time steps \<times> features\<close>.
\<close>

datatype tensor3 = Tensor3 (size1: nat) (size2: nat) (items: "real list list list")

definition size0 :: "tensor3 \<Rightarrow> nat" where
  "size0 x = length (items x)"

definition wf_tensor3 :: "tensor3 \<Rightarrow> bool" where
  "wf_tensor3 x =
     list_all (\<lambda>s. length s = size1 x \<and> list_all (\<lambda>v. length v = size2 x) s) (items x)"

section \<open>The PyTorch operations the cells use\<close>

text \<open>\<open>torch.zeros((n, m))\<close>.\<close>

definition zeros :: "nat \<Rightarrow> nat \<Rightarrow> tensor" where
  "zeros n m = Tensor m (replicate n (replicate m 0))"

text \<open>\<open>x[:, seq, :]\<close>: the slice of time step \<open>seq\<close> across the batch.\<close>

definition select_step :: "tensor3 \<Rightarrow> nat \<Rightarrow> error + tensor" where
  "select_step x seq =
     (if seq < size1 x then Inr (Tensor (size2 x) (map (\<lambda>s. s ! seq) (items x)))
      else Inl IndexError)"

text \<open>
  \<open>t.view(-1, t.size(1))\<close> on a rank-2 tensor: the tensor itself, except that PyTorch
  rejects the inferred dimension \<open>-1\<close> as ambiguous when the tensor has no columns.
  On \<open>None\<close> the attribute lookup fails.
\<close>

definition view_flat :: "tensor option \<Rightarrow> error + tensor" where
  "view_flat t =
     (case t of
        None \<Rightarrow> Inl AttributeError
      | Some t \<Rightarrow> if ncols t = 0 then Inl ShapeMismatchError else Inr t)"

text \<open>
  Broadcasting of one dimension: equal sizes, or one of them is 1.
\<close>

definition broadcast_size :: "nat \<Rightarrow> nat \<Rightarrow> nat option" where
  "broadcast_size m n =
     (if m = n then Some m else if m = 1 then Some n else if n = 1 then Some m else None)"

definition expand :: "nat \<Rightarrow> 'a list \<Rightarrow> 'a list" where
  "expand n xs = (if length xs = n then xs else replicate n (hd xs))"

definition tensor_binop :: "(real \<Rightarrow> real \<Rightarrow> real) \<Rightarrow> tensor \<Rightarrow> tensor \<Rightarrow> error + tensor" where
  "tensor_binop f a b =
     (case (broadcast_size (nrows a) (nrows b), broadcast_size (ncols a) (ncols b)) of
        (Some n, Some m) \<Rightarrow>
          Inr (Tensor m (map2 (\<lambda>r s. map2 f (expand m r) (expand m s))
                              (expand n (rows a)) (expand n (rows b))))
      | _ \<Rightarrow> Inl ShapeMismatchError)"

text \<open>\<open>a + b\<close> and \<open>torch.mul(a, b)\<close>; a \<open>None\<close> operand is a \<open>TypeError\<close>.\<close>

definition tensor_add :: "tensor \<Rightarrow> tensor \<Rightarrow> error + tensor" where
  "tensor_add a b = tensor_binop (+) a b"

definition torch_mul :: "tensor \<Rightarrow> tensor option \<Rightarrow> error + tensor" where
  "torch_mul a b = (case b of None \<Rightarrow> Inl TypeError | Some b \<Rightarrow> tensor_binop (*) a b)"

definition map_tensor :: "(real \<Rightarrow> real) \<Rightarrow> tensor \<Rightarrow> tensor" where
  "map_tensor f t = Tensor (ncols t) (map (map f) (rows t))"

definition sigmoid :: "real \<Rightarrow> real" where
  "sigmoid v = 1 / (1 + exp (- v))"

definition tensor_sigmoid :: "tensor \<Rightarrow> tensor" where
  "tensor_sigmoid t = map_tensor sigmoid t"

definition tensor_tanh :: "tensor \<Rightarrow> tensor" where
  "tensor_tanh t = map_tensor tanh t"

text \<open>\<open>1 - t\<close>: a scalar minus a tensor.\<close>

definition rsub :: "real \<Rightarrow> tensor \<Rightarrow> tensor" where
  "rsub c t = map_tensor (\<lambda>v. c - v) t"

text \<open>\<open>t.narrow(1, start, len)\<close>: the columns \<open>start, ..., start + len - 1\<close>.\<close>

definition narrow :: "nat \<Rightarrow> nat \<Rightarrow> tensor \<Rightarrow> tensor" where
  "narrow start len t = Tensor len (map (\<lambda>r. take len (drop start r)) (rows t))"

text \<open>
  \<open>t.chunk(k, 1)\<close>: pieces of \<open>ceil(ncols / k)\<close> columns, the last one possibly narrower,
  so fewer than \<open>k\<close> pieces may come back; a tensor without columns gives \<open>k\<close> empty pieces.
\<close>

definition chunk :: "nat \<Rightarrow> tensor \<Rightarrow> tensor list" where
  "chunk k t =
     (let d = ncols t; s = (d + k - 1) div k in
      if s = 0 then replicate k (narrow 0 0 t)
      else map (\<lambda>j. narrow (j * s) (min s (d - j * s)) t) [0..<(d + s - 1) div s])"

text \<open>\<open>a, b, c, d = pieces\<close>.\<close>

definition unpack4 :: "'a list \<Rightarrow> error + ('a \<times> 'a \<times> 'a \<times> 'a)" where
  "unpack4 ps = (case ps of [a, b, c, d] \<Rightarrow> Inr (a, b, c, d) | _ \<Rightarrow> Inl ValueError)"

text \<open>
  \<open>torch.nn.Linear(in_features, out_features)\<close>: \<open>weight\<close> has one row of \<open>in_features\<close>
  numbers per output, \<open>bias\<close> one number per output.
\<close>

record Linear =
  in_features :: nat
  out_features :: nat
  weight :: "real list list"
  bias :: "real list"

definition wf_Linear :: "Linear \<Rightarrow> bool" where
  "wf_Linear L =
     (length (weight L) = out_features L \<and> length (bias L) = out_features L \<and>
      list_all (\<lambda>w. length w = in_features L) (weight L))"

definition dot :: "real list \<Rightarrow> real list \<Rightarrow> real" where
  "dot r w = sum_list (map2 (*) r w)"

text \<open>
  Calling the layer: \<open>x W\<^sup>T + b\<close>, row by row; the width of the input must be
  \<open>in_features\<close>, whatever the number of rows.
\<close>

definition Linear_forward :: "Linear \<Rightarrow> tensor option \<Rightarrow> error + tensor" where
  "Linear_forward L x =
     (case x of
        None \<Rightarrow> Inl TypeError
      | Some t \<Rightarrow>
          if ncols t \<noteq> in_features L then Inl ShapeMismatchError
          else Inr (Tensor (out_features L)
                      (map (\<lambda>r. map2 (\<lambda>w b. dot r w + b) (weight L) (bias L)) (rows t))))"

section \<open>Methods: state passing with exceptions\<close>

text \<open>
  A method of an object of type \<open>'s\<close> takes the object and returns its result, or the
  exception it raised, together with the object as the call left it.
\<close>

type_synonym ('s, 'a) pymethod = "'s \<Rightarrow> (error + 'a) \<times> 's"

definition ret :: "'a \<Rightarrow> ('s, 'a) pymethod" where
  "ret a = (\<lambda>s. (Inr a, s))"

definition bind :: "('s, 'a) pymethod \<Rightarrow> ('a \<Rightarrow> ('s, 'b) pymethod) \<Rightarrow> ('s, 'b) pymethod" where
  "bind m f = (\<lambda>s. case m s of (Inl e, s') \<Rightarrow> (Inl e, s') | (Inr a, s') \<Rightarrow> f a s')"

text \<open>The result of a library call that does not touch the object.\<close>

definition torch :: "error + 'a \<Rightarrow> ('s, 'a) pymethod" where
  "torch r = (\<lambda>s. (r, s))"

text \<open>\<open>self.layer(x)\<close> for a \<open>Linear\<close> attribute of the object.\<close>

definition call_Linear :: "('s \<Rightarrow> Linear) \<Rightarrow> tensor option \<Rightarrow> ('s, tensor) pymethod" where
  "call_Linear layer x = (\<lambda>s. (Linear_forward (layer s) x, s))"

text \<open>
  \<open>self.cell(...)\<close> for a sub-module: the method runs on the sub-module, which is stored
  back as the call left it.
\<close>

definition call_module ::
    "('s \<Rightarrow> 'c) \<Rightarrow> (('c \<Rightarrow> 'c) \<Rightarrow> 's \<Rightarrow> 's) \<Rightarrow> ('c, 'a) pymethod \<Rightarrow> ('s, 'a) pymethod" where
  "call_module get upd m = (\<lambda>s. case m (get s) of (r, c') \<Rightarrow> (r, upd (\<lambda>_. c') s))"

section \<open>LSTMCell and LSTMModel\<close>

text \<open>
  \<open>LSTMCell.forward(x_t, hidden)\<close>, statement by statement; \<open>hidden\<close> defaults to
  \<open>(None, None)\<close>. The operands of \<open>+\<close> are evaluated from left to right, so a failing
  input projection raises before the hidden projection is tried.
\<close>

record LSTMCell =
  input_size :: nat
  hidden_size :: nat
  x_fc :: Linear
  h_fc :: Linear

definition LSTMCell_forward ::
    "tensor \<Rightarrow> tensor option \<times> tensor option \<Rightarrow> (LSTMCell, tensor \<times> tensor) pymethod" where
  "LSTMCell_forward x_t hidden =
     (case hidden of (h_t_1, c_t_1) \<Rightarrow>
      bind (torch (view_flat (Some x_t))) (\<lambda>x_t.
      bind (torch (view_flat h_t_1)) (\<lambda>h_t_1.
      bind (torch (view_flat c_t_1)) (\<lambda>c_t_1.
      bind (call_Linear x_fc (Some x_t)) (\<lambda>gx.
      bind (call_Linear h_fc (Some h_t_1)) (\<lambda>gh.
      bind (torch (tensor_add gx gh)) (\<lambda>gates.
      bind (torch (unpack4 (chunk 4 gates))) (\<lambda>(i_t, f_t, candidate_c_t, o_t).
      case (tensor_sigmoid i_t, tensor_sigmoid f_t, tensor_tanh candidate_c_t,
            tensor_sigmoid o_t) of (i_t, f_t, candidate_c_t, o_t) \<Rightarrow>
      bind (torch (torch_mul f_t (Some c_t_1))) (\<lambda>fc.
      bind (torch (torch_mul i_t (Some candidate_c_t))) (\<lambda>ic.
      bind (torch (tensor_add fc ic)) (\<lambda>c_t.
      bind (torch (torch_mul o_t (Some (tensor_tanh c_t)))) (\<lambda>h_t.
      ret (h_t, c_t)))))))))))))"

record LSTMModel =
  hidden_size :: nat
  lstm :: LSTMCell
  fc :: Linear

text \<open>
  \<open>LSTMModel.forward(x)\<close>: zero tensors for \<open>c_t\<close> and \<open>h_t\<close> (moving them to the
  device of \<open>x\<close> does not change their values), the loop
  \<open>for seq in range(x.size(1))\<close>, written over the indices still to visit, and the
  output layer on the last \<open>h_t\<close>.
\<close>

fun LSTMModel_loop ::
    "tensor3 \<Rightarrow> nat list \<Rightarrow> tensor \<times> tensor \<Rightarrow> (LSTMModel, tensor \<times> tensor) pymethod" where
  "LSTMModel_loop x [] (h_t, c_t) = ret (h_t, c_t)"
| "LSTMModel_loop x (seq # rest) (h_t, c_t) =
     bind (torch (select_step x seq)) (\<lambda>x_t.
     bind (call_module lstm lstm_update (LSTMCell_forward x_t (Some h_t, Some c_t)))
       (\<lambda>state. LSTMModel_loop x rest state))"

definition LSTMModel_forward :: "tensor3 \<Rightarrow> (LSTMModel, tensor) pymethod" where
  "LSTMModel_forward x =
     (\<lambda>self.
        (case (zeros (size0 x) (LSTMModel.hidden_size self),
               zeros (size0 x) (LSTMModel.hidden_size self)) of (c_t, h_t) \<Rightarrow>
         bind (LSTMModel_loop x [0..<size1 x] (h_t, c_t)) (\<lambda>(h_t, c_t).
         call_Linear LSTMModel.fc (Some h_t))) self)"

section \<open>GRUCell and GRUModel\<close>

text \<open>
  \<open>GRUCell.forward(x_t, h_t_1)\<close>, statement by statement; \<open>h_t_1\<close> defaults to \<open>None\<close>.
  There is no \<open>view\<close> here, and the class has no \<open>reset_parameters\<close>.
\<close>

record GRUCell =
  input_size :: nat
  hidden_size :: nat
  x_r_fc :: Linear
  x_z_fc :: Linear
  x_h_fc :: Linear
  h_r_fc :: Linear
  h_z_fc :: Linear
  hr_h_fc :: Linear

definition GRUCell_forward :: "tensor \<Rightarrow> tensor option \<Rightarrow> (GRUCell, tensor) pymethod" where
  "GRUCell_forward x_t h_t_1 =
     bind (call_Linear x_z_fc (Some x_t)) (\<lambda>xz.
     bind (call_Linear h_z_fc h_t_1) (\<lambda>hz.
     bind (torch (tensor_add xz hz)) (\<lambda>z_pre.
     case tensor_sigmoid z_pre of z_t \<Rightarrow>
     bind (call_Linear x_r_fc (Some x_t)) (\<lambda>xr.
     bind (call_Linear h_r_fc h_t_1) (\<lambda>hr.
     bind (torch (tensor_add xr hr)) (\<lambda>r_pre.
     case tensor_sigmoid r_pre of r_t \<Rightarrow>
     bind (call_Linear x_h_fc (Some x_t)) (\<lambda>xh.
     bind (torch (torch_mul r_t h_t_1)) (\<lambda>rh.
     bind (call_Linear hr_h_fc (Some rh)) (\<lambda>hh.
     bind (torch (tensor_add xh hh)) (\<lambda>h_pre.
     case tensor_tanh h_pre of candidate_h_t \<Rightarrow>
     bind (torch (torch_mul z_t h_t_1)) (\<lambda>zh.
     bind (torch (torch_mul (rsub 1 z_t) (Some candidate_h_t))) (\<lambda>zc.
     bind (torch (tensor_add zh zc)) (\<lambda>h_t.
     ret h_t)))))))))))))"

record GRUModel =
  hidden_size :: nat
  gru :: GRUCell
  fc :: Linear

fun GRUModel_loop :: "tensor3 \<Rightarrow> nat list \<Rightarrow> tensor \<Rightarrow> (GRUModel, tensor) pymethod" where
  "GRUModel_loop x [] h_t = ret h_t"
| "GRUModel_loop x (seq # rest) h_t =
     bind (torch (select_step x seq)) (\<lambda>x_t.
     bind (call_module gru gru_update (GRUCell_forward x_t (Some h_t)))
       (\<lambda>h_t. GRUModel_loop x rest h_t))"

definition GRUModel_forward :: "tensor3 \<Rightarrow> (GRUModel, tensor) pymethod" where
  "GRUModel_forward x =
     (\<lambda>self.
        (case zeros (size0 x) (GRUModel.hidden_size self) of h_t \<Rightarrow>
         bind (GRUModel_loop x [0..<size1 x] h_t) (\<lambda>h_t.
         call_Linear GRUModel.fc (Some h_t))) self)"

section \<open>Construction and parameter initialisation\<close>

text \<open>
  The random source of PyTorch is an explicit generator: an unbounded supply of draws
  from the unit interval and the position of the next draw. \<open>uniform_(lo, hi)\<close> maps
  each fresh draw \<open>u\<close> to \<open>lo + (hi - lo) * u\<close>.
\<close>

datatype generator = Generator (draws: "nat \<Rightarrow> real") (pos: nat)

definition unit_draws :: "generator \<Rightarrow> bool" where
  "unit_draws g = (\<forall>k. 0 \<le> draws g k \<and> draws g k \<le> 1)"

definition uniform_list :: "nat \<Rightarrow> real \<Rightarrow> real \<Rightarrow> generator \<Rightarrow> real list \<times> generator" where
  "uniform_list n lo hi g =
     (map (\<lambda>k. lo + (hi - lo) * draws g (pos g + k)) [0..<n], Generator (draws g) (pos g + n))"

definition reshape :: "nat \<Rightarrow> nat \<Rightarrow> 'a list \<Rightarrow> 'a list list" where
  "reshape r c vals = map (\<lambda>i. take c (drop (i * c) vals)) [0..<r]"

definition uniform_matrix ::
    "nat \<Rightarrow> nat \<Rightarrow> real \<Rightarrow> real \<Rightarrow> generator \<Rightarrow> real list list \<times> generator" where
  "uniform_matrix r c lo hi g =
     (case uniform_list (r * c) lo hi g of (vals, g') \<Rightarrow> (reshape r c vals, g'))"

text \<open>
  \<open>torch.nn.Linear(in_features, out_features)\<close> fills its weight and then its bias from
  \<open>U(-b, b)\<close> with \<open>b = 1 / sqrt(in_features)\<close>.
\<close>

definition Linear_init :: "nat \<Rightarrow> nat \<Rightarrow> generator \<Rightarrow> Linear \<times> generator" where
  "Linear_init n_in n_out g =
     (let bound = (if 0 < n_in then 1 / sqrt (real n_in) else 0) in
      case uniform_matrix n_out n_in (- bound) bound g of (w, g1) \<Rightarrow>
      case uniform_list n_out (- bound) bound g1 of (b, g2) \<Rightarrow>
      (\<lparr>in_features = n_in, out_features = n_out, weight = w, bias = b\<rparr>, g2))"

text \<open>
  \<open>weight.data.uniform_(-size, size)\<close> for the two parameters of a layer, in the order of
  \<open>parameters()\<close>: weight, then bias (\<open>sz\<close> is the source's \<open>size\<close>).
\<close>

definition Linear_uniform :: "real \<Rightarrow> Linear \<Rightarrow> generator \<Rightarrow> Linear \<times> generator" where
  "Linear_uniform sz L g =
     (case uniform_matrix (out_features L) (in_features L) (- sz) sz g of (w, g1) \<Rightarrow>
      case uniform_list (out_features L) (- sz) sz g1 of (b, g2) \<Rightarrow>
      (L\<lparr>weight := w, bias := b\<rparr>, g2))"

definition LSTMCell_reset_parameters ::
    "LSTMCell \<Rightarrow> generator \<Rightarrow> error + (LSTMCell \<times> generator)" where
  "LSTMCell_reset_parameters self g =
     (if LSTMCell.hidden_size self = 0 then Inl ZeroDivisionError
      else
        let sz = sqrt (3 / real (LSTMCell.hidden_size self)) in
        case Linear_uniform sz (x_fc self) g of (xl, g1) \<Rightarrow>
        case Linear_uniform sz (h_fc self) g1 of (hl, g2) \<Rightarrow>
        Inr (self\<lparr>x_fc := xl, h_fc := hl\<rparr>, g2))"

definition LSTMCell_init :: "nat \<Rightarrow> nat \<Rightarrow> generator \<Rightarrow> error + (LSTMCell \<times> generator)" where
  "LSTMCell_init input_sz hidden_sz g =
     (case Linear_init input_sz (4 * hidden_sz) g of (xl, g1) \<Rightarrow>
      case Linear_init hidden_sz (4 * hidden_sz) g1 of (hl, g2) \<Rightarrow>
      LSTMCell_reset_parameters
        \<lparr>LSTMCell.input_size = input_sz, LSTMCell.hidden_size = hidden_sz,
         x_fc = xl, h_fc = hl\<rparr> g2)"

definition LSTMModel_init ::
    "nat \<Rightarrow> nat \<Rightarrow> nat \<Rightarrow> generator \<Rightarrow> error + (LSTMModel \<times> generator)" where
  "LSTMModel_init input_sz hidden_sz output_sz g =
     (case LSTMCell_init input_sz hidden_sz g of
        Inl e \<Rightarrow> Inl e
      | Inr (cell, g1) \<Rightarrow>
          case Linear_init hidden_sz output_sz g1 of (l, g2) \<Rightarrow>
          Inr (\<lparr>LSTMModel.hidden_size = hidden_sz, lstm = cell, LSTMModel.fc = l\<rparr>, g2))"

definition GRUCell_init :: "nat \<Rightarrow> nat \<Rightarrow> generator \<Rightarrow> GRUCell \<times> generator" where
  "GRUCell_init input_sz hidden_sz g =
     (case Linear_init input_sz hidden_sz g of (xr, g1) \<Rightarrow>
      case Linear_init input_sz hidden_sz g1 of (xz, g2) \<Rightarrow>
      case Linear_init input_sz hidden_sz g2 of (xh, g3) \<Rightarrow>
      case Linear_init hidden_sz hidden_sz g3 of (hr, g4) \<Rightarrow>
      case Linear_init hidden_sz hidden_sz g4 of (hz, g5) \<Rightarrow>
      case Linear_init hidden_sz hidden_sz g5 of (hrh, g6) \<Rightarrow>
      (\<lparr>GRUCell.input_size = input_sz, GRUCell.hidden_size = hidden_sz,
        x_r_fc = xr, x_z_fc = xz, x_h_fc = xh, h_r_fc = hr, h_z_fc = hz, hr_h_fc = hrh\<rparr>, g6))"

definition GRUModel_init :: "nat \<Rightarrow> nat \<Rightarrow> nat \<Rightarrow> generator \<Rightarrow> GRUModel \<times> generator" where
  "GRUModel_init input_sz hidden_sz output_sz g =
     (case GRUCell_init input_sz hidden_sz g of (cell, g1) \<Rightarrow>
      case Linear_init hidden_sz output_sz g1 of (l, g2) \<Rightarrow>
      (\<lparr>GRUModel.hidden_size = hidden_sz, gru = cell, GRUModel.fc = l\<rparr>, g2))"

text \<open>All parameter values of a layer, and of each cell.\<close>

definition Linear_parameters :: "Linear \<Rightarrow> real list" where
  "Linear_parameters L = concat (weight L) @ bias L"

definition LSTMCell_parameters :: "LSTMCell \<Rightarrow> real list" where
  "LSTMCell_parameters self = Linear_parameters (x_fc self) @ Linear_parameters (h_fc self)"

definition GRUCell_parameters :: "GRUCell \<Rightarrow> real list" where
  "GRUCell_parameters self =
     Linear_parameters (x_r_fc self) @ Linear_parameters (x_z_fc self) @
     Linear_parameters (x_h_fc self) @ Linear_parameters (h_r_fc self) @
     Linear_parameters (h_z_fc self) @ Linear_parameters (hr_h_fc self)"



section \<open>Well-formed modules\<close>

text \<open>The shapes that the constructors establish.\<close>

definition wf_LSTMCell :: "LSTMCell \<Rightarrow> bool" where
  "wf_LSTMCell cell =
     (wf_Linear (x_fc cell) \<and> wf_Linear (h_fc cell) \<and>
      in_features (x_fc cell) = LSTMCell.input_size cell \<and>
      out_features (x_fc cell) = 4 * LSTMCell.hidden_size cell \<and>
      in_features (h_fc cell) = LSTMCell.hidden_size cell \<and>
      out_features (h_fc cell) = 4 * LSTMCell.hidden_size cell)"

definition wf_LSTMModel :: "LSTMModel \<Rightarrow> bool" where
  "wf_LSTMModel m =
     (wf_LSTMCell (lstm m) \<and> LSTMCell.hidden_size (lstm m) = LSTMModel.hidden_size m \<and>
      wf_Linear (LSTMModel.fc m) \<and> in_features (LSTMModel.fc m) = LSTMModel.hidden_size m)"

definition wf_GRUCell :: "GRUCell \<Rightarrow> bool" where
  "wf_GRUCell cell =
     (wf_Linear (x_r_fc cell) \<and> wf_Linear (x_z_fc cell) \<and> wf_Linear (x_h_fc cell) \<and>
      wf_Linear (h_r_fc cell) \<and> wf_Linear (h_z_fc cell) \<and> wf_Linear (hr_h_fc cell) \<and>
      in_features (x_r_fc cell) = GRUCell.input_size cell \<and>
      in_features (x_z_fc cell) = GRUCell.input_size cell \<and>
      in_features (x_h_fc cell) = GRUCell.input_size cell \<and>
      in_features (h_r_fc cell) = GRUCell.hidden_size cell \<and>
      in_features (h_z_fc cell) = GRUCell.hidden_size cell \<and>
      in_features (hr_h_fc cell) = GRUCell.hidden_size cell \<and>
      out_features (x_r_fc cell) = GRUCell.hidden_size cell \<and>
      out_features (x_z_fc cell) = GRUCell.hidden_size cell \<and>
      out_features (x_h_fc cell) = GRUCell.hidden_size cell \<and>
      out_features (h_r_fc cell) = GRUCell.hidden_size cell \<and>
      out_features (h_z_fc cell) = GRUCell.hidden_size cell \<and>
      out_features (hr_h_fc cell) = GRUCell.hidden_size cell)"

definition wf_GRUModel :: "GRUModel \<Rightarrow> bool" where
  "wf_GRUModel m =
     (wf_GRUCell (gru m) \<and> GRUCell.hidden_size (gru m) = GRUModel.hidden_size m \<and>
      wf_Linear (GRUModel.fc m) \<and> in_features (GRUModel.fc m) = GRUModel.hidden_size m)"

section \<open>The cell equations as the specification words them\<close>

text \<open>Output \<open>k\<close> of an affine projection applied to one input vector.\<close>

definition affine :: "Linear \<Rightarrow> real list \<Rightarrow> nat \<Rightarrow> real" where
  "affine L v k = dot v (weight L ! k) + bias L ! k"

text \<open>
  LSTM, for one batch row with input \<open>xr\<close>, previous hidden state \<open>hr\<close> and previous
  memory \<open>cr\<close>: \<open>gates\<close> is the sum of the two projections; its four blocks of
  \<open>hidden_size\<close> entries are, in this order, \<open>i\<close>, \<open>f\<close>, \<open>g\<close> and \<open>o\<close>.
\<close>

definition LSTM_gates :: "LSTMCell \<Rightarrow> real list \<Rightarrow> real list \<Rightarrow> nat \<Rightarrow> real" where
  "LSTM_gates cell xr hr k = affine (x_fc cell) xr k + affine (h_fc cell) hr k"

definition LSTM_c_spec :: "LSTMCell \<Rightarrow> real list \<Rightarrow> real list \<Rightarrow> real list \<Rightarrow> nat \<Rightarrow> real" where
  "LSTM_c_spec cell xr hr cr j =
     (let H = LSTMCell.hidden_size cell;
          i = sigmoid (LSTM_gates cell xr hr j);
          f = sigmoid (LSTM_gates cell xr hr (H + j));
          g = tanh (LSTM_gates cell xr hr (2 * H + j))
      in f * cr ! j + i * g)"

definition LSTM_h_spec :: "LSTMCell \<Rightarrow> real list \<Rightarrow> real list \<Rightarrow> real list \<Rightarrow> nat \<Rightarrow> real" where
  "LSTM_h_spec cell xr hr cr j =
     (let H = LSTMCell.hidden_size cell;
          og = sigmoid (LSTM_gates cell xr hr (3 * H + j))
      in og * tanh (LSTM_c_spec cell xr hr cr j))"

definition LSTM_step_spec :: "LSTMCell \<Rightarrow> tensor \<Rightarrow> tensor \<Rightarrow> tensor \<Rightarrow> tensor \<times> tensor" where
  "LSTM_step_spec cell x h c =
     (let H = LSTMCell.hidden_size cell in
      (Tensor H (map (\<lambda>b. map (LSTM_h_spec cell (rows x ! b) (rows h ! b) (rows c ! b)) [0..<H])
                     [0..<nrows x]),
       Tensor H (map (\<lambda>b. map (LSTM_c_spec cell (rows x ! b) (rows h ! b) (rows c ! b)) [0..<H])
                     [0..<nrows x])))"

text \<open>GRU, for one batch row with input \<open>xr\<close> and previous hidden state \<open>hr\<close>.\<close>

definition GRU_z_spec :: "GRUCell \<Rightarrow> real list \<Rightarrow> real list \<Rightarrow> nat \<Rightarrow> real" where
  "GRU_z_spec cell xr hr j = sigmoid (affine (x_z_fc cell) xr j + affine (h_z_fc cell) hr j)"

definition GRU_r_spec :: "GRUCell \<Rightarrow> real list \<Rightarrow> real list \<Rightarrow> nat \<Rightarrow> real" where
  "GRU_r_spec cell xr hr j = sigmoid (affine (x_r_fc cell) xr j + affine (h_r_fc cell) hr j)"

definition GRU_candidate_spec :: "GRUCell \<Rightarrow> real list \<Rightarrow> real list \<Rightarrow> nat \<Rightarrow> real" where
  "GRU_candidate_spec cell xr hr j =
     tanh (affine (x_h_fc cell) xr j +
           affine (hr_h_fc cell)
             (map (\<lambda>k. GRU_r_spec cell xr hr k * hr ! k) [0..<GRUCell.hidden_size cell]) j)"

definition GRU_h_spec :: "GRUCell \<Rightarrow> real list \<Rightarrow> real list \<Rightarrow> nat \<Rightarrow> real" where
  "GRU_h_spec cell xr hr j =
     GRU_z_spec cell xr hr j * hr ! j +
     (1 - GRU_z_spec cell xr hr j) * GRU_candidate_spec cell xr hr j"

definition GRU_step_spec :: "GRUCell \<Rightarrow> tensor \<Rightarrow> tensor \<Rightarrow> tensor" where
  "GRU_step_spec cell x h =
     Tensor (GRUCell.hidden_size cell)
       (map (\<lambda>b. map (GRU_h_spec cell (rows x ! b) (rows h ! b)) [0..<GRUCell.hidden_size cell])
            [0..<nrows x])"

section \<open>The sequence reduction as the specification words it\<close>

text \<open>
  The carried state after \<open>t\<close> time steps: zero before the first step, and after step
  \<open>t\<close> what the cell returns for the slice of index \<open>t\<close> and the state after \<open>t\<close> steps.
  An exception of any step is the result of all later ones.
\<close>

fun LSTM_state_after :: "LSTMModel \<Rightarrow> tensor3 \<Rightarrow> nat \<Rightarrow> error + (tensor \<times> tensor)" where
  "LSTM_state_after m x 0 =
     Inr (zeros (size0 x) (LSTMModel.hidden_size m), zeros (size0 x) (LSTMModel.hidden_size m))"
| "LSTM_state_after m x (Suc t) =
     (case LSTM_state_after m x t of
        Inl e \<Rightarrow> Inl e
      | Inr (h, c) \<Rightarrow>
          (case select_step x t of
             Inl e \<Rightarrow> Inl e
           | Inr x_t \<Rightarrow> fst (LSTMCell_forward x_t (Some h, Some c) (lstm m))))"

fun GRU_state_after :: "GRUModel \<Rightarrow> tensor3 \<Rightarrow> nat \<Rightarrow> error + tensor" where
  "GRU_state_after m x 0 = Inr (zeros (size0 x) (GRUModel.hidden_size m))"
| "GRU_state_after m x (Suc t) =
     (case GRU_state_after m x t of
        Inl e \<Rightarrow> Inl e
      | Inr h \<Rightarrow>
          (case select_step x t of
             Inl e \<Rightarrow> Inl e
           | Inr x_t \<Rightarrow> fst (GRUCell_forward x_t (Some h) (gru m))))"

text \<open>
  Results for two batches put together: \<open>torch.cat\<close> along the batch dimension when both
  runs return, the exception otherwise.
\<close>

definition cat :: "tensor \<Rightarrow> tensor \<Rightarrow> tensor" where
  "cat a b = Tensor (ncols a) (rows a @ rows b)"

fun stack :: "error + tensor \<Rightarrow> error + tensor \<Rightarrow> error + tensor" where
  "stack (Inr a) (Inr b) = Inr (cat a b)"
| "stack (Inl e) _ = Inl e"
| "stack _ (Inl e) = Inl e"

section \<open>Small concrete modules and inputs\<close>

text \<open>
  Modules with one input feature and one hidden unit whose parameters are all zero, and
  a generator that always draws the same number. They serve as concrete instances.
\<close>

definition zero_Linear_1_4 :: Linear where
  "zero_Linear_1_4 =
     \<lparr>in_features = 1, out_features = 4, weight = [[0], [0], [0], [0]], bias = [0, 0, 0, 0]\<rparr>"

definition zero_Linear_1_1 :: Linear where
  "zero_Linear_1_1 = \<lparr>in_features = 1, out_features = 1, weight = [[0]], bias = [0]\<rparr>"

definition example_LSTMCell :: LSTMCell where
  "example_LSTMCell =
     \<lparr>LSTMCell.input_size = 1, LSTMCell.hidden_size = 1,
      x_fc = zero_Linear_1_4, h_fc = zero_Linear_1_4\<rparr>"

definition example_LSTMModel :: LSTMModel where
  "example_LSTMModel =
     \<lparr>LSTMModel.hidden_size = 1, lstm = example_LSTMCell, LSTMModel.fc = zero_Linear_1_1\<rparr>"

definition example_GRUCell :: GRUCell where
  "example_GRUCell =
     \<lparr>GRUCell.input_size = 1, GRUCell.hidden_size = 1,
      x_r_fc = zero_Linear_1_1, x_z_fc = zero_Linear_1_1, x_h_fc = zero_Linear_1_1,
      h_r_fc = zero_Linear_1_1, h_z_fc = zero_Linear_1_1, hr_h_fc = zero_Linear_1_1\<rparr>"

definition example_GRUModel :: GRUModel where
  "example_GRUModel =
     \<lparr>GRUModel.hidden_size = 1, gru = example_GRUCell, GRUModel.fc = zero_Linear_1_1\<rparr>"

definition constant_generator :: "real \<Rightarrow> generator" where
  "constant_generator u = Generator (\<lambda>k. u) 0"

section \<open>Method calls and single steps\<close>

text \<open>
  Calls that leave the object alone, the frame of each \<open>forward\<close>, and the cell steps on
  inputs of matching shapes.
\<close>

lemma bind_torch: "bind (torch r) f s = (case r of Inl e \<Rightarrow> (Inl e, s) | Inr a \<Rightarrow> f a s)"
  by (simp add: bind_def torch_def split: sum.splits)

lemma bind_call_Linear:
  "bind (call_Linear l x) f s = (case Linear_forward (l s) x of Inl e \<Rightarrow> (Inl e, s) | Inr a \<Rightarrow> f a s)"
  by (simp add: bind_def call_Linear_def split: sum.splits)

lemma ret_apply: "ret a s = (Inr a, s)"
  by (simp add: ret_def)

lemma LSTMCell_forward_frame: "snd (LSTMCell_forward x_t hidden self) = self"
  by (simp add: LSTMCell_forward_def bind_torch bind_call_Linear ret_apply
           split: prod.splits sum.splits)

lemma GRUCell_forward_frame: "snd (GRUCell_forward x_t h self) = self"
  by (simp add: GRUCell_forward_def bind_torch bind_call_Linear ret_apply
           split: prod.splits sum.splits)

lemma bind_call_module_lstm:
  "bind (call_module lstm lstm_update (LSTMCell_forward x_t hidden)) f s =
     (case fst (LSTMCell_forward x_t hidden (lstm s)) of Inl e \<Rightarrow> (Inl e, s) | Inr a \<Rightarrow> f a s)"
  using LSTMCell_forward_frame[of x_t hidden "lstm s"]
  by (cases "LSTMCell_forward x_t hidden (lstm s)")
     (simp add: bind_def call_module_def split: sum.splits)

lemma bind_call_module_gru:
  "bind (call_module gru gru_update (GRUCell_forward x_t h)) f s =
     (case fst (GRUCell_forward x_t h (gru s)) of Inl e \<Rightarrow> (Inl e, s) | Inr a \<Rightarrow> f a s)"
  using GRUCell_forward_frame[of x_t h "gru s"]
  by (cases "GRUCell_forward x_t h (gru s)")
     (simp add: bind_def call_module_def split: sum.splits)

lemma LSTMModel_loop_frame: "snd (LSTMModel_loop x idx st self) = self"
  by (induction x idx st arbitrary: self rule: LSTMModel_loop.induct)
     (simp_all add: ret_apply bind_torch bind_call_module_lstm split: sum.splits)

lemma GRUModel_loop_frame: "snd (GRUModel_loop x idx st self) = self"
  by (induction x idx st arbitrary: self rule: GRUModel_loop.induct)
     (simp_all add: ret_apply bind_torch bind_call_module_gru split: sum.splits)

lemma bind_frame:
  assumes "\<And>s. snd (m s) = s"
  shows "bind m f s = (case fst (m s) of Inl e \<Rightarrow> (Inl e, s) | Inr a \<Rightarrow> f a s)"
  using assms[of s] by (cases "m s") (simp add: bind_def split: sum.splits)

lemma LSTMModel_forward_frame: "snd (LSTMModel_forward x self) = self"
  by (simp add: LSTMModel_forward_def bind_frame[OF LSTMModel_loop_frame] call_Linear_def
           split: sum.splits prod.splits)

lemma GRUModel_forward_frame: "snd (GRUModel_forward x self) = self"
  by (simp add: GRUModel_forward_def bind_frame[OF GRUModel_loop_frame] call_Linear_def
           split: sum.splits prod.splits)

lemma wf_tensor_nth: "wf_tensor t \<Longrightarrow> i < nrows t \<Longrightarrow> length (rows t ! i) = ncols t"
  by (simp add: wf_tensor_def nrows_def list_all_length)

lemma expand_same: "length xs = n \<Longrightarrow> expand n xs = xs"
  by (simp add: expand_def)

lemma tensor_binop_same:
  assumes "nrows a = nrows b" "ncols a = ncols b" "wf_tensor a" "wf_tensor b"
  shows "tensor_binop f a b = Inr (Tensor (ncols a) (map2 (map2 f) (rows a) (rows b)))"
proof -
  have "map2 (\<lambda>r s. map2 f (expand (ncols a) r) (expand (ncols a) s)) (rows a) (rows b)
        = map2 (map2 f) (rows a) (rows b)"
  proof (rule map_cong[OF refl])
    fix p assume "p \<in> set (zip (rows a) (rows b))"
    then have "fst p \<in> set (rows a)" "snd p \<in> set (rows b)"
      by (auto dest: set_zip_leftD set_zip_rightD simp: prod_eq_iff intro: set_zip_leftD[of "fst p" "snd p"] set_zip_rightD[of "fst p" "snd p"])
    then have "length (fst p) = ncols a" "length (snd p) = ncols a"
      using assms by (auto simp: wf_tensor_def list_all_iff)
    then show "(case p of (r, s) \<Rightarrow> map2 f (expand (ncols a) r) (expand (ncols a) s))
               = (case p of (r, s) \<Rightarrow> map2 f r s)"
      by (cases p) (simp add: expand_same)
  qed
  then show ?thesis
    using assms(1,2) by (simp add: tensor_binop_def broadcast_size_def expand_same nrows_def)
qed

lemma chunk4:
  assumes "0 < H" "ncols g = 4 * H"
  shows "chunk 4 g = [narrow 0 H g, narrow H H g, narrow (2 * H) H g, narrow (3 * H) H g]"
proof -
  have s: "(4 * H + 4 - 1) div 4 = H" by simp
  have n: "(4 * H + H - 1) div H = 4"
  proof -
    have e: "4 * H + H - 1 = 4 * H + (H - 1)" using assms by simp
    have "H \<noteq> 0" using assms by simp
    from div_mult_self3[OF this, of 4 "H - 1"]
    have "(4 * H + (H - 1)) div H = 4 + (H - 1) div H" .
    moreover have "(H - 1) div H = 0" using assms by simp
    ultimately show ?thesis by (simp only: e)
  qed
  have u: "[0..<4] = [0, 1, 2, Suc 2]" by (simp add: upt_rec numeral_eq_Suc)
  show ?thesis
    using assms(1) unfolding chunk_def Let_def assms(2) s n u
    by (simp add: min_def)
qed

lemma narrow_shape [simp]: "ncols (narrow k n g) = n" "nrows (narrow k n g) = nrows g"
  by (simp_all add: narrow_def nrows_def)

lemma narrow_wf: "wf_tensor g \<Longrightarrow> k + n \<le> ncols g \<Longrightarrow> wf_tensor (narrow k n g)"
  by (auto simp: narrow_def wf_tensor_def list_all_iff)

lemma narrow_nth:
  "wf_tensor g \<Longrightarrow> k + n \<le> ncols g \<Longrightarrow> i < nrows g \<Longrightarrow> j < n \<Longrightarrow>
   rows (narrow k n g) ! i ! j = rows g ! i ! (k + j)"
  by (simp add: narrow_def nrows_def wf_tensor_def list_all_length)

lemma Linear_forward_rows:
  assumes "Linear_forward L (Some t) = Inr y"
  shows "ncols t = in_features L" "ncols y = out_features L"
    "rows y = map (\<lambda>r. map2 (\<lambda>w b. dot r w + b) (weight L) (bias L)) (rows t)"
  using assms by (auto simp: Linear_forward_def split: if_splits)

lemma Linear_forward_wf:
  assumes "Linear_forward L (Some t) = Inr y" "wf_Linear L"
  shows "wf_tensor y" "nrows y = nrows t"
  using assms
  by (auto simp: Linear_forward_def wf_Linear_def wf_tensor_def nrows_def list_all_iff
           split: if_splits)

lemma Linear_forward_nth:
  assumes "Linear_forward L (Some t) = Inr y" "wf_Linear L" "b < nrows t" "k < out_features L"
  shows "rows y ! b ! k = dot (rows t ! b) (weight L ! k) + bias L ! k"
  using assms
  by (auto simp: Linear_forward_def wf_Linear_def nrows_def split: if_splits)

lemma tensor_binop_same_nth:
  assumes "nrows a = nrows b" "ncols a = ncols b" "wf_tensor a" "wf_tensor b"
  shows "\<exists>y. tensor_binop f a b = Inr y \<and> ncols y = ncols a \<and> nrows y = nrows a \<and> wf_tensor y \<and>
           (\<forall>i<nrows a. \<forall>j<ncols a. rows y ! i ! j = f (rows a ! i ! j) (rows b ! i ! j))"
  using assms wf_tensor_nth[of a] wf_tensor_nth[of b]
  by (auto simp: tensor_binop_same nrows_def wf_tensor_def list_all_length)

lemma tensor_eqI:
  assumes "ncols a = ncols b" "nrows a = nrows b" "wf_tensor a" "wf_tensor b"
    "\<And>i j. i < nrows a \<Longrightarrow> j < ncols a \<Longrightarrow> rows a ! i ! j = rows b ! i ! j"
  shows "a = b"
proof -
  have "rows a = rows b"
  proof (rule nth_equalityI)
    show "length (rows a) = length (rows b)" using assms(2) by (simp add: nrows_def)
  next
    fix i assume i: "i < length (rows a)"
    then have la: "length (rows a ! i) = ncols a" and lb: "length (rows b ! i) = ncols a"
      using assms(1-4) by (simp_all add: wf_tensor_nth nrows_def)
    show "rows a ! i = rows b ! i"
      by (rule nth_equalityI) (use la lb i assms(5) in \<open>simp_all add: nrows_def\<close>)
  qed
  then show ?thesis using assms(1) by (simp add: tensor.expand)
qed

lemma map_tensor_shape [simp]:
  "ncols (map_tensor f t) = ncols t" "nrows (map_tensor f t) = nrows t"
  by (simp_all add: map_tensor_def nrows_def)

lemma map_tensor_wf: "wf_tensor t \<Longrightarrow> wf_tensor (map_tensor f t)"
  by (simp add: map_tensor_def wf_tensor_def list_all_iff)

lemma map_tensor_nth:
  "wf_tensor t \<Longrightarrow> i < nrows t \<Longrightarrow> j < ncols t \<Longrightarrow> rows (map_tensor f t) ! i ! j = f (rows t ! i ! j)"
  using wf_tensor_nth[of t i] by (simp add: map_tensor_def nrows_def)

lemma LSTM_step_spec_shape:
  "ncols (fst (LSTM_step_spec cell x h c)) = LSTMCell.hidden_size cell"
  "nrows (fst (LSTM_step_spec cell x h c)) = nrows x"
  "wf_tensor (fst (LSTM_step_spec cell x h c))"
  "ncols (snd (LSTM_step_spec cell x h c)) = LSTMCell.hidden_size cell"
  "nrows (snd (LSTM_step_spec cell x h c)) = nrows x"
  "wf_tensor (snd (LSTM_step_spec cell x h c))"
  by (simp_all add: LSTM_step_spec_def Let_def nrows_def wf_tensor_def list_all_iff)

lemma LSTM_step_spec_nth:
  "i < nrows x \<Longrightarrow> j < LSTMCell.hidden_size cell \<Longrightarrow>
   rows (fst (LSTM_step_spec cell x h c)) ! i ! j =
     LSTM_h_spec cell (rows x ! i) (rows h ! i) (rows c ! i) j"
  "i < nrows x \<Longrightarrow> j < LSTMCell.hidden_size cell \<Longrightarrow>
   rows (snd (LSTM_step_spec cell x h c)) ! i ! j =
     LSTM_c_spec cell (rows x ! i) (rows h ! i) (rows c ! i) j"
  by (simp_all add: LSTM_step_spec_def Let_def nrows_def)

lemma LSTMCell_forward_step:
  assumes cell: "wf_LSTMCell cell"
    and pos: "0 < LSTMCell.input_size cell" "0 < LSTMCell.hidden_size cell"
    and x: "wf_tensor x" "ncols x = LSTMCell.input_size cell"
    and h: "wf_tensor h" "ncols h = LSTMCell.hidden_size cell" "nrows h = nrows x"
    and c: "wf_tensor c" "ncols c = LSTMCell.hidden_size cell" "nrows c = nrows x"
  shows "LSTMCell_forward x (Some h, Some c) cell = (Inr (LSTM_step_spec cell x h c), cell)"
proof -
  define H where "H = LSTMCell.hidden_size cell"
  define B where "B = nrows x"
  have wfL: "wf_Linear (x_fc cell)" "wf_Linear (h_fc cell)"
    and feat: "in_features (x_fc cell) = ncols x" "out_features (x_fc cell) = 4 * H"
              "in_features (h_fc cell) = ncols h" "out_features (h_fc cell) = 4 * H"
    using cell x(2) h(2) by (simp_all add: wf_LSTMCell_def H_def)
  obtain gx where gx: "Linear_forward (x_fc cell) (Some x) = Inr gx"
    by (simp add: Linear_forward_def feat)
  obtain gh where gh: "Linear_forward (h_fc cell) (Some h) = Inr gh"
    by (simp add: Linear_forward_def feat)
  note gxs = Linear_forward_rows(2)[OF gx] Linear_forward_wf[OF gx wfL(1)]
  note ghs = Linear_forward_rows(2)[OF gh] Linear_forward_wf[OF gh wfL(2)]
  obtain gates where gates: "tensor_add gx gh = Inr gates" "ncols gates = 4 * H"
      "nrows gates = B" "wf_tensor gates"
    and gates_nth: "\<And>i k. i < B \<Longrightarrow> k < 4 * H \<Longrightarrow>
                      rows gates ! i ! k = rows gx ! i ! k + rows gh ! i ! k"
    using tensor_binop_same_nth[of gx gh "(+)"] gxs ghs feat h(3)
    by (auto simp: tensor_add_def B_def)
  define i0 where "i0 = narrow 0 H gates"
  define f0 where "f0 = narrow H H gates"
  define g0 where "g0 = narrow (2 * H) H gates"
  define o0 where "o0 = narrow (3 * H) H gates"
  have ch: "chunk 4 gates = [i0, f0, g0, o0]"
    using chunk4[OF _ gates(2)] pos(2) by (simp add: H_def i0_def f0_def g0_def o0_def)
  have s_i: "ncols i0 = H" "nrows i0 = B" "wf_tensor i0"
    and s_f: "ncols f0 = H" "nrows f0 = B" "wf_tensor f0"
    and s_g: "ncols g0 = H" "nrows g0 = B" "wf_tensor g0"
    and s_o: "ncols o0 = H" "nrows o0 = B" "wf_tensor o0"
    using gates by (simp_all add: i0_def f0_def g0_def o0_def narrow_wf)
  have ch_nth: "rows i0 ! i ! j = rows gates ! i ! j \<and>
                rows f0 ! i ! j = rows gates ! i ! (H + j) \<and>
                rows g0 ! i ! j = rows gates ! i ! (2 * H + j) \<and>
                rows o0 ! i ! j = rows gates ! i ! (3 * H + j)" if "i < B" "j < H" for i j
    using that gates by (simp add: i0_def f0_def g0_def o0_def narrow_nth)
  obtain fc where fc: "torch_mul (tensor_sigmoid f0) (Some c) = Inr fc"
      "ncols fc = H" "nrows fc = B" "wf_tensor fc"
    and fc_nth: "\<And>i j. i < B \<Longrightarrow> j < H \<Longrightarrow>
                   rows fc ! i ! j = sigmoid (rows f0 ! i ! j) * rows c ! i ! j"
    using tensor_binop_same_nth[of "tensor_sigmoid f0" c "(*)"] s_f c
    by (auto simp: torch_mul_def tensor_sigmoid_def map_tensor_wf map_tensor_nth H_def B_def)
  obtain ic where ic: "torch_mul (tensor_sigmoid i0) (Some (tensor_tanh g0)) = Inr ic"
      "ncols ic = H" "nrows ic = B" "wf_tensor ic"
    and ic_nth: "\<And>i j. i < B \<Longrightarrow> j < H \<Longrightarrow>
                   rows ic ! i ! j = sigmoid (rows i0 ! i ! j) * tanh (rows g0 ! i ! j)"
    using tensor_binop_same_nth[of "tensor_sigmoid i0" "tensor_tanh g0" "(*)"] s_i s_g
    by (auto simp: torch_mul_def tensor_sigmoid_def tensor_tanh_def map_tensor_wf map_tensor_nth)
  obtain c_t where c_t: "tensor_add fc ic = Inr c_t"
      "ncols c_t = H" "nrows c_t = B" "wf_tensor c_t"
    and c_t_nth: "\<And>i j. i < B \<Longrightarrow> j < H \<Longrightarrow>
                   rows c_t ! i ! j = rows fc ! i ! j + rows ic ! i ! j"
    using tensor_binop_same_nth[of fc ic "(+)"] fc ic
    by (auto simp: tensor_add_def)
  obtain h_t where h_t: "torch_mul (tensor_sigmoid o0) (Some (tensor_tanh c_t)) = Inr h_t"
      "ncols h_t = H" "nrows h_t = B" "wf_tensor h_t"
    and h_t_nth: "\<And>i j. i < B \<Longrightarrow> j < H \<Longrightarrow>
                   rows h_t ! i ! j = sigmoid (rows o0 ! i ! j) * tanh (rows c_t ! i ! j)"
    using tensor_binop_same_nth[of "tensor_sigmoid o0" "tensor_tanh c_t" "(*)"] s_o c_t
    by (auto simp: torch_mul_def tensor_sigmoid_def tensor_tanh_def map_tensor_wf map_tensor_nth)
  have run: "LSTMCell_forward x (Some h, Some c) cell = (Inr (h_t, c_t), cell)"
    using pos x(2) h(2) c(2) gx gh gates(1) ch fc(1) ic(1) c_t(1) h_t(1)
    by (simp add: LSTMCell_forward_def bind_torch bind_call_Linear ret_apply view_flat_def
                  unpack4_def)
  have g_nth: "rows gates ! i ! k = LSTM_gates cell (rows x ! i) (rows h ! i) k"
    if "i < B" "k < 4 * H" for i k
    using that gates_nth[OF that] Linear_forward_nth[OF gx wfL(1)] Linear_forward_nth[OF gh wfL(2)]
      feat h(3)
    by (simp add: LSTM_gates_def affine_def B_def)
  have c_eq: "rows c_t ! i ! j = LSTM_c_spec cell (rows x ! i) (rows h ! i) (rows c ! i) j"
    if "i < B" "j < H" for i j
    using that c_t_nth[OF that] fc_nth[OF that] ic_nth[OF that] ch_nth[OF that]
    by (simp add: LSTM_c_spec_def Let_def g_nth H_def[symmetric])
  have h_eq: "rows h_t ! i ! j = LSTM_h_spec cell (rows x ! i) (rows h ! i) (rows c ! i) j"
    if "i < B" "j < H" for i j
    using that h_t_nth[OF that] ch_nth[OF that] c_eq[OF that]
    by (simp add: LSTM_h_spec_def Let_def g_nth H_def[symmetric])
  have "h_t = fst (LSTM_step_spec cell x h c)"
    by (rule tensor_eqI)
       (use h_t h_eq in \<open>simp_all add: LSTM_step_spec_shape LSTM_step_spec_nth H_def B_def\<close>)
  moreover have "c_t = snd (LSTM_step_spec cell x h c)"
    by (rule tensor_eqI)
       (use c_t c_eq in \<open>simp_all add: LSTM_step_spec_shape LSTM_step_spec_nth H_def B_def\<close>)
  ultimately show ?thesis using run by simp
qed

lemma GRU_step_spec_shape:
  "ncols (GRU_step_spec cell x h) = GRUCell.hidden_size cell"
  "nrows (GRU_step_spec cell x h) = nrows x"
  "wf_tensor (GRU_step_spec cell x h)"
  by (simp_all add: GRU_step_spec_def nrows_def wf_tensor_def list_all_iff)

lemma GRU_step_spec_nth:
  "i < nrows x \<Longrightarrow> j < GRUCell.hidden_size cell \<Longrightarrow>
   rows (GRU_step_spec cell x h) ! i ! j = GRU_h_spec cell (rows x ! i) (rows h ! i) j"
  by (simp add: GRU_step_spec_def nrows_def)

lemma Linear_sum:
  assumes "wf_Linear L" "wf_Linear M" "out_features L = H" "out_features M = H"
    "in_features L = ncols x" "in_features M = ncols y" "nrows y = nrows x"
  shows "\<exists>ly my s. Linear_forward L (Some x) = Inr ly \<and> Linear_forward M (Some y) = Inr my \<and>
           tensor_add ly my = Inr s \<and> ncols s = H \<and> nrows s = nrows x \<and> wf_tensor s \<and>
           (\<forall>i<nrows x. \<forall>j<H. rows s ! i ! j = affine L (rows x ! i) j + affine M (rows y ! i) j)"
proof -
  obtain ly where ly: "Linear_forward L (Some x) = Inr ly"
    by (simp add: Linear_forward_def assms)
  obtain my where my: "Linear_forward M (Some y) = Inr my"
    by (simp add: Linear_forward_def assms)
  note lys = Linear_forward_rows(2)[OF ly] Linear_forward_wf[OF ly assms(1)]
  note mys = Linear_forward_rows(2)[OF my] Linear_forward_wf[OF my assms(2)]
  obtain s where s: "tensor_add ly my = Inr s" "ncols s = H" "nrows s = nrows x" "wf_tensor s"
    and s_nth: "\<And>i k. i < nrows x \<Longrightarrow> k < H \<Longrightarrow>
                      rows s ! i ! k = rows ly ! i ! k + rows my ! i ! k"
    using tensor_binop_same_nth[of ly my "(+)"] lys mys assms
    by (auto simp: tensor_add_def)
  have "rows s ! i ! j = affine L (rows x ! i) j + affine M (rows y ! i) j"
    if "i < nrows x" "j < H" for i j
    using that s_nth[OF that] Linear_forward_nth[OF ly assms(1)] Linear_forward_nth[OF my assms(2)]
      assms
    by (simp add: affine_def)
  then show ?thesis using ly my s by blast
qed

lemma GRUCell_forward_step:
  assumes cell: "wf_GRUCell cell"
    and x: "wf_tensor x" "ncols x = GRUCell.input_size cell"
    and h: "wf_tensor h" "ncols h = GRUCell.hidden_size cell" "nrows h = nrows x"
  shows "GRUCell_forward x (Some h) cell = (Inr (GRU_step_spec cell x h), cell)"
proof -
  define H where "H = GRUCell.hidden_size cell"
  define B where "B = nrows x"
  have wfL: "wf_Linear (x_r_fc cell)" "wf_Linear (x_z_fc cell)" "wf_Linear (x_h_fc cell)"
      "wf_Linear (h_r_fc cell)" "wf_Linear (h_z_fc cell)" "wf_Linear (hr_h_fc cell)"
    and inf: "in_features (x_r_fc cell) = ncols x" "in_features (x_z_fc cell) = ncols x"
      "in_features (x_h_fc cell) = ncols x" "in_features (h_r_fc cell) = ncols h"
      "in_features (h_z_fc cell) = ncols h" "in_features (hr_h_fc cell) = H"
    and outf: "out_features (x_r_fc cell) = H" "out_features (x_z_fc cell) = H"
      "out_features (x_h_fc cell) = H" "out_features (h_r_fc cell) = H"
      "out_features (h_z_fc cell) = H" "out_features (hr_h_fc cell) = H"
    using cell x(2) h(2) by (simp_all add: wf_GRUCell_def H_def)
  obtain xz hz z_pre where z: "Linear_forward (x_z_fc cell) (Some x) = Inr xz"
      "Linear_forward (h_z_fc cell) (Some h) = Inr hz" "tensor_add xz hz = Inr z_pre"
      "ncols z_pre = H" "nrows z_pre = B" "wf_tensor z_pre"
    and z_nth: "\<And>i j. i < B \<Longrightarrow> j < H \<Longrightarrow> rows z_pre ! i ! j =
                  affine (x_z_fc cell) (rows x ! i) j + affine (h_z_fc cell) (rows h ! i) j"
    using Linear_sum[OF wfL(2) wfL(5) outf(2) outf(5) inf(2) inf(5) h(3)]
    unfolding B_def by blast
  obtain xr hr r_pre where r: "Linear_forward (x_r_fc cell) (Some x) = Inr xr"
      "Linear_forward (h_r_fc cell) (Some h) = Inr hr" "tensor_add xr hr = Inr r_pre"
      "ncols r_pre = H" "nrows r_pre = B" "wf_tensor r_pre"
    and r_nth: "\<And>i j. i < B \<Longrightarrow> j < H \<Longrightarrow> rows r_pre ! i ! j =
                  affine (x_r_fc cell) (rows x ! i) j + affine (h_r_fc cell) (rows h ! i) j"
    using Linear_sum[OF wfL(1) wfL(4) outf(1) outf(4) inf(1) inf(4) h(3)]
    unfolding B_def by blast
  define z_t where "z_t = tensor_sigmoid z_pre"
  define r_t where "r_t = tensor_sigmoid r_pre"
  have z_t: "ncols z_t = H" "nrows z_t = B" "wf_tensor z_t"
    and r_t: "ncols r_t = H" "nrows r_t = B" "wf_tensor r_t"
    using z r by (simp_all add: z_t_def r_t_def tensor_sigmoid_def map_tensor_wf)
  have z_t_nth: "rows z_t ! i ! j = GRU_z_spec cell (rows x ! i) (rows h ! i) j"
    and r_t_nth: "rows r_t ! i ! j = GRU_r_spec cell (rows x ! i) (rows h ! i) j"
    if "i < B" "j < H" for i j
    using that z r z_nth[OF that] r_nth[OF that]
    by (simp_all add: z_t_def r_t_def tensor_sigmoid_def map_tensor_nth GRU_z_spec_def
                      GRU_r_spec_def)
  obtain rh where rh: "torch_mul r_t (Some h) = Inr rh"
      "ncols rh = H" "nrows rh = B" "wf_tensor rh"
    and rh_nth: "\<And>i j. i < B \<Longrightarrow> j < H \<Longrightarrow> rows rh ! i ! j = rows r_t ! i ! j * rows h ! i ! j"
    using tensor_binop_same_nth[of r_t h "(*)"] r_t h
    by (auto simp: torch_mul_def H_def B_def)
  have rh_row: "rows rh ! i = map (\<lambda>k. GRU_r_spec cell (rows x ! i) (rows h ! i) k * rows h ! i ! k)
                                  [0..<H]" if "i < B" for i
    by (rule nth_equalityI)
       (use that rh wf_tensor_nth[of rh i] rh_nth[OF that] r_t_nth[OF that] in simp_all)
  obtain xh hh h_pre where c: "Linear_forward (x_h_fc cell) (Some x) = Inr xh"
      "Linear_forward (hr_h_fc cell) (Some rh) = Inr hh" "tensor_add xh hh = Inr h_pre"
      "ncols h_pre = H" "nrows h_pre = B" "wf_tensor h_pre"
    and c_nth: "\<And>i j. i < B \<Longrightarrow> j < H \<Longrightarrow> rows h_pre ! i ! j =
                  affine (x_h_fc cell) (rows x ! i) j + affine (hr_h_fc cell) (rows rh ! i) j"
    using Linear_sum[OF wfL(3) wfL(6) outf(3) outf(6) inf(3), of rh] inf(6) rh
    unfolding B_def by auto
  define cand where "cand = tensor_tanh h_pre"
  have cand: "ncols cand = H" "nrows cand = B" "wf_tensor cand"
    using c by (simp_all add: cand_def tensor_tanh_def map_tensor_wf)
  have cand_nth: "rows cand ! i ! j = GRU_candidate_spec cell (rows x ! i) (rows h ! i) j"
    if "i < B" "j < H" for i j
    using that c c_nth[OF that] rh_row[OF that(1)]
    by (simp add: cand_def tensor_tanh_def map_tensor_nth GRU_candidate_spec_def H_def)
  obtain zh where zh: "torch_mul z_t (Some h) = Inr zh"
      "ncols zh = H" "nrows zh = B" "wf_tensor zh"
    and zh_nth: "\<And>i j. i < B \<Longrightarrow> j < H \<Longrightarrow> rows zh ! i ! j = rows z_t ! i ! j * rows h ! i ! j"
    using tensor_binop_same_nth[of z_t h "(*)"] z_t h
    by (auto simp: torch_mul_def H_def B_def)
  obtain zc where zc: "torch_mul (rsub 1 z_t) (Some cand) = Inr zc"
      "ncols zc = H" "nrows zc = B" "wf_tensor zc"
    and zc_nth: "\<And>i j. i < B \<Longrightarrow> j < H \<Longrightarrow>
                   rows zc ! i ! j = (1 - rows z_t ! i ! j) * rows cand ! i ! j"
    using tensor_binop_same_nth[of "rsub 1 z_t" cand "(*)"] z_t cand
    by (auto simp: torch_mul_def rsub_def map_tensor_wf map_tensor_nth)
  obtain h_t where h_t: "tensor_add zh zc = Inr h_t"
      "ncols h_t = H" "nrows h_t = B" "wf_tensor h_t"
    and h_t_nth: "\<And>i j. i < B \<Longrightarrow> j < H \<Longrightarrow> rows h_t ! i ! j = rows zh ! i ! j + rows zc ! i ! j"
    using tensor_binop_same_nth[of zh zc "(+)"] zh zc
    by (auto simp: tensor_add_def)
  have run: "GRUCell_forward x (Some h) cell = (Inr h_t, cell)"
    using z(1-3) r(1-3) rh(1) c(1-3) zh(1) zc(1) h_t(1)
    by (simp add: GRUCell_forward_def bind_torch bind_call_Linear ret_apply
                  z_t_def[symmetric] r_t_def[symmetric] cand_def[symmetric])
  have h_eq: "rows h_t ! i ! j = GRU_h_spec cell (rows x ! i) (rows h ! i) j"
    if "i < B" "j < H" for i j
    using that h_t_nth[OF that] zh_nth[OF that] zc_nth[OF that] z_t_nth[OF that] cand_nth[OF that]
    by (simp add: GRU_h_spec_def)
  have "h_t = GRU_step_spec cell x h"
    by (rule tensor_eqI)
       (use h_t h_eq in \<open>simp_all add: GRU_step_spec_shape GRU_step_spec_nth H_def B_def\<close>)
  then show ?thesis using run by simp
qed

section \<open>The loop over the time steps\<close>

lemma LSTMModel_loop_snoc:
  "fst (LSTMModel_loop x (idx @ [t]) st self) =
     (case fst (LSTMModel_loop x idx st self) of
        Inl e \<Rightarrow> Inl e
      | Inr (h, c) \<Rightarrow>
          (case select_step x t of
             Inl e \<Rightarrow> Inl e
           | Inr x_t \<Rightarrow> fst (LSTMCell_forward x_t (Some h, Some c) (lstm self))))"
proof (induction idx arbitrary: st)
  case Nil
  show ?case
    by (cases st)
       (simp add: bind_torch bind_call_module_lstm ret_apply split: sum.splits prod.splits)
next
  case (Cons a idx)
  show ?case
    by (cases st)
       (simp add: bind_torch bind_call_module_lstm Cons.IH split: sum.splits prod.splits)
qed

lemma LSTMModel_loop_upt:
  "fst (LSTMModel_loop x [0..<t]
          (zeros (size0 x) (LSTMModel.hidden_size self),
           zeros (size0 x) (LSTMModel.hidden_size self)) self) = LSTM_state_after self x t"
  by (induction t) (simp_all add: ret_apply LSTMModel_loop_snoc)

lemma LSTMModel_forward_reduce:
  "fst (LSTMModel_forward x self) =
     (case LSTM_state_after self x (size1 x) of
        Inl e \<Rightarrow> Inl e
      | Inr (h, c) \<Rightarrow> Linear_forward (LSTMModel.fc self) (Some h))"
  using LSTMModel_loop_upt[of x "size1 x" self]
  by (simp add: LSTMModel_forward_def bind_frame[OF LSTMModel_loop_frame] call_Linear_def
           split: sum.splits prod.splits)

lemma GRUModel_loop_snoc:
  "fst (GRUModel_loop x (idx @ [t]) h self) =
     (case fst (GRUModel_loop x idx h self) of
        Inl e \<Rightarrow> Inl e
      | Inr h' \<Rightarrow>
          (case select_step x t of
             Inl e \<Rightarrow> Inl e
           | Inr x_t \<Rightarrow> fst (GRUCell_forward x_t (Some h') (gru self))))"
proof (induction idx arbitrary: h)
  case Nil
  show ?case
    by (simp add: bind_torch bind_call_module_gru ret_apply split: sum.splits)
next
  case (Cons a idx)
  show ?case
    by (simp add: bind_torch bind_call_module_gru Cons.IH split: sum.splits)
qed

lemma GRUModel_loop_upt:
  "fst (GRUModel_loop x [0..<t] (zeros (size0 x) (GRUModel.hidden_size self)) self)
     = GRU_state_after self x t"
  by (induction t) (simp_all add: ret_apply GRUModel_loop_snoc)

lemma GRUModel_forward_reduce:
  "fst (GRUModel_forward x self) =
     (case GRU_state_after self x (size1 x) of
        Inl e \<Rightarrow> Inl e
      | Inr h \<Rightarrow> Linear_forward (GRUModel.fc self) (Some h))"
  using GRUModel_loop_upt[of x "size1 x" self]
  by (simp add: GRUModel_forward_def bind_frame[OF GRUModel_loop_frame] call_Linear_def
           split: sum.splits)

section \<open>Batches put together\<close>

lemma cat_shape [simp]:
  "ncols (cat a b) = ncols a" "nrows (cat a b) = nrows a + nrows b" "rows (cat a b) = rows a @ rows b"
  by (simp_all add: cat_def nrows_def)

lemma cat_wf: "wf_tensor a \<Longrightarrow> wf_tensor b \<Longrightarrow> ncols b = ncols a \<Longrightarrow> wf_tensor (cat a b)"
  by (simp add: cat_def wf_tensor_def)

lemma zeros_shape [simp]: "ncols (zeros n m) = m" "nrows (zeros n m) = n"
  by (simp_all add: zeros_def nrows_def)

lemma zeros_wf: "wf_tensor (zeros n m)"
  by (simp add: zeros_def wf_tensor_def list_all_iff)

lemma zeros_cat: "zeros (n1 + n2) m = cat (zeros n1 m) (zeros n2 m)"
  by (simp add: zeros_def cat_def replicate_add)

lemma LSTM_step_spec_cat:
  assumes "nrows h1 = nrows x1" "nrows c1 = nrows x1"
  shows "LSTM_step_spec cell (cat x1 x2) (cat h1 h2) (cat c1 c2) =
           (cat (fst (LSTM_step_spec cell x1 h1 c1)) (fst (LSTM_step_spec cell x2 h2 c2)),
            cat (snd (LSTM_step_spec cell x1 h1 c1)) (snd (LSTM_step_spec cell x2 h2 c2)))"
proof -
  have len: "length (rows h1) = length (rows x1)" "length (rows c1) = length (rows x1)"
    using assms by (simp_all add: nrows_def)
  have "fst (LSTM_step_spec cell (cat x1 x2) (cat h1 h2) (cat c1 c2)) =
          cat (fst (LSTM_step_spec cell x1 h1 c1)) (fst (LSTM_step_spec cell x2 h2 c2))"
    by (rule tensor_eqI)
       (auto simp: LSTM_step_spec_shape LSTM_step_spec_nth cat_wf nth_append len assms
                   nrows_def[symmetric])
  moreover
  have "snd (LSTM_step_spec cell (cat x1 x2) (cat h1 h2) (cat c1 c2)) =
          cat (snd (LSTM_step_spec cell x1 h1 c1)) (snd (LSTM_step_spec cell x2 h2 c2))"
    by (rule tensor_eqI)
       (auto simp: LSTM_step_spec_shape LSTM_step_spec_nth cat_wf nth_append len assms
                   nrows_def[symmetric])
  ultimately show ?thesis by (simp add: prod_eq_iff)
qed

lemma GRU_step_spec_cat:
  assumes "nrows h1 = nrows x1"
  shows "GRU_step_spec cell (cat x1 x2) (cat h1 h2) =
           cat (GRU_step_spec cell x1 h1) (GRU_step_spec cell x2 h2)"
proof -
  have len: "length (rows h1) = length (rows x1)"
    using assms by (simp_all add: nrows_def)
  show ?thesis
    by (rule tensor_eqI)
       (auto simp: GRU_step_spec_shape GRU_step_spec_nth cat_wf nth_append len assms
                   nrows_def[symmetric])
qed

lemma LSTMCell_forward_mismatch:
  assumes "ncols x = 0 \<or> ncols h = 0 \<or> ncols x \<noteq> in_features (x_fc cell)"
  shows "LSTMCell_forward x (Some h, Some c) cell = (Inl ShapeMismatchError, cell)"
  using assms
  by (auto simp: LSTMCell_forward_def bind_torch bind_call_Linear view_flat_def Linear_forward_def)

lemma GRUCell_forward_mismatch:
  assumes "ncols x \<noteq> in_features (x_z_fc cell)"
  shows "GRUCell_forward x h cell = (Inl ShapeMismatchError, cell)"
  using assms
  by (auto simp: GRUCell_forward_def bind_torch bind_call_Linear Linear_forward_def)

lemma select_step_append:
  "select_step (Tensor3 T D (xs @ ys)) t =
     (if t < T then Inr (cat (Tensor D (map (\<lambda>s. s ! t) xs)) (Tensor D (map (\<lambda>s. s ! t) ys)))
      else Inl IndexError)"
  by (simp add: select_step_def cat_def)

lemma select_step_wf:
  assumes "wf_tensor3 x" "select_step x t = Inr x_t"
  shows "wf_tensor x_t" "ncols x_t = size2 x" "nrows x_t = size0 x"
  using assms
  by (auto simp: wf_tensor3_def select_step_def wf_tensor_def nrows_def size0_def list_all_iff
           split: if_splits)

lemma LSTMCell_forward_cat:
  assumes cell: "wf_LSTMCell cell"
    and x: "wf_tensor x1" "wf_tensor x2" "ncols x2 = ncols x1"
    and h: "wf_tensor h1" "wf_tensor h2" "ncols h1 = LSTMCell.hidden_size cell"
           "ncols h2 = LSTMCell.hidden_size cell" "nrows h1 = nrows x1" "nrows h2 = nrows x2"
    and c: "wf_tensor c1" "wf_tensor c2" "ncols c1 = LSTMCell.hidden_size cell"
           "ncols c2 = LSTMCell.hidden_size cell" "nrows c1 = nrows x1" "nrows c2 = nrows x2"
  shows "(\<exists>ha ca hb cb.
            fst (LSTMCell_forward (cat x1 x2) (Some (cat h1 h2), Some (cat c1 c2)) cell)
              = Inr (cat ha hb, cat ca cb) \<and>
            fst (LSTMCell_forward x1 (Some h1, Some c1) cell) = Inr (ha, ca) \<and>
            fst (LSTMCell_forward x2 (Some h2, Some c2) cell) = Inr (hb, cb) \<and>
            wf_tensor ha \<and> wf_tensor hb \<and> wf_tensor ca \<and> wf_tensor cb \<and>
            ncols ha = LSTMCell.hidden_size cell \<and> ncols hb = LSTMCell.hidden_size cell \<and>
            ncols ca = LSTMCell.hidden_size cell \<and> ncols cb = LSTMCell.hidden_size cell \<and>
            nrows ha = nrows x1 \<and> nrows hb = nrows x2 \<and>
            nrows ca = nrows x1 \<and> nrows cb = nrows x2) \<or>
         (fst (LSTMCell_forward (cat x1 x2) (Some (cat h1 h2), Some (cat c1 c2)) cell)
              = Inl ShapeMismatchError \<and>
          fst (LSTMCell_forward x1 (Some h1, Some c1) cell) = Inl ShapeMismatchError \<and>
          fst (LSTMCell_forward x2 (Some h2, Some c2) cell) = Inl ShapeMismatchError)"
proof (cases "ncols x1 = 0 \<or> LSTMCell.hidden_size cell = 0 \<or> ncols x1 \<noteq> LSTMCell.input_size cell")
  case True
  have inx: "in_features (x_fc cell) = LSTMCell.input_size cell"
    using cell by (simp add: wf_LSTMCell_def)
  have "LSTMCell_forward (cat x1 x2) (Some (cat h1 h2), Some (cat c1 c2)) cell
          = (Inl ShapeMismatchError, cell)"
    by (rule LSTMCell_forward_mismatch) (use True inx h(3) in auto)
  moreover have "LSTMCell_forward x1 (Some h1, Some c1) cell = (Inl ShapeMismatchError, cell)"
    by (rule LSTMCell_forward_mismatch) (use True inx h(3) in auto)
  moreover have "LSTMCell_forward x2 (Some h2, Some c2) cell = (Inl ShapeMismatchError, cell)"
    by (rule LSTMCell_forward_mismatch) (use True inx h(4) x(3) in auto)
  ultimately show ?thesis by simp
next
  case False
  then have pos: "0 < LSTMCell.input_size cell" "0 < LSTMCell.hidden_size cell"
    and w: "ncols x1 = LSTMCell.input_size cell" "ncols x2 = LSTMCell.input_size cell"
    using x(3) by auto
  have 1: "LSTMCell_forward x1 (Some h1, Some c1) cell = (Inr (LSTM_step_spec cell x1 h1 c1), cell)"
    by (rule LSTMCell_forward_step[OF cell pos x(1) w(1) h(1,3,5) c(1,3,5)])
  have 2: "LSTMCell_forward x2 (Some h2, Some c2) cell = (Inr (LSTM_step_spec cell x2 h2 c2), cell)"
    by (rule LSTMCell_forward_step[OF cell pos x(2) w(2) h(2,4,6) c(2,4,6)])
  have 3: "LSTMCell_forward (cat x1 x2) (Some (cat h1 h2), Some (cat c1 c2)) cell
             = (Inr (LSTM_step_spec cell (cat x1 x2) (cat h1 h2) (cat c1 c2)), cell)"
    by (rule LSTMCell_forward_step[OF cell pos])
       (use x h c w in \<open>simp_all add: cat_wf\<close>)
  show ?thesis
    unfolding 1 2 3 LSTM_step_spec_cat[OF h(5) c(5)]
    by (rule disjI1, rule exI[of _ "fst (LSTM_step_spec cell x1 h1 c1)"],
        rule exI[of _ "snd (LSTM_step_spec cell x1 h1 c1)"],
        rule exI[of _ "fst (LSTM_step_spec cell x2 h2 c2)"],
        rule exI[of _ "snd (LSTM_step_spec cell x2 h2 c2)"])
       (simp add: LSTM_step_spec_shape)
qed

lemma GRUCell_forward_cat:
  assumes cell: "wf_GRUCell cell"
    and x: "wf_tensor x1" "wf_tensor x2" "ncols x2 = ncols x1"
    and h: "wf_tensor h1" "wf_tensor h2" "ncols h1 = GRUCell.hidden_size cell"
           "ncols h2 = GRUCell.hidden_size cell" "nrows h1 = nrows x1" "nrows h2 = nrows x2"
  shows "(\<exists>ha hb.
            fst (GRUCell_forward (cat x1 x2) (Some (cat h1 h2)) cell) = Inr (cat ha hb) \<and>
            fst (GRUCell_forward x1 (Some h1) cell) = Inr ha \<and>
            fst (GRUCell_forward x2 (Some h2) cell) = Inr hb \<and>
            wf_tensor ha \<and> wf_tensor hb \<and>
            ncols ha = GRUCell.hidden_size cell \<and> ncols hb = GRUCell.hidden_size cell \<and>
            nrows ha = nrows x1 \<and> nrows hb = nrows x2) \<or>
         (fst (GRUCell_forward (cat x1 x2) (Some (cat h1 h2)) cell) = Inl ShapeMismatchError \<and>
          fst (GRUCell_forward x1 (Some h1) cell) = Inl ShapeMismatchError \<and>
          fst (GRUCell_forward x2 (Some h2) cell) = Inl ShapeMismatchError)"
proof (cases "ncols x1 \<noteq> GRUCell.input_size cell")
  case True
  have inx: "in_features (x_z_fc cell) = GRUCell.input_size cell"
    using cell by (simp add: wf_GRUCell_def)
  show ?thesis
    using True inx x(3) by (simp add: GRUCell_forward_mismatch)
next
  case False
  then have w: "ncols x1 = GRUCell.input_size cell" "ncols x2 = GRUCell.input_size cell"
    using x(3) by auto
  have 1: "GRUCell_forward x1 (Some h1) cell = (Inr (GRU_step_spec cell x1 h1), cell)"
    by (rule GRUCell_forward_step[OF cell x(1) w(1) h(1,3,5)])
  have 2: "GRUCell_forward x2 (Some h2) cell = (Inr (GRU_step_spec cell x2 h2), cell)"
    by (rule GRUCell_forward_step[OF cell x(2) w(2) h(2,4,6)])
  have 3: "GRUCell_forward (cat x1 x2) (Some (cat h1 h2)) cell
             = (Inr (GRU_step_spec cell (cat x1 x2) (cat h1 h2)), cell)"
    by (rule GRUCell_forward_step[OF cell]) (use x h w in \<open>simp_all add: cat_wf\<close>)
  show ?thesis
    unfolding 1 2 3 GRU_step_spec_cat[OF h(5)]
    by (rule disjI1, rule exI[of _ "GRU_step_spec cell x1 h1"],
        rule exI[of _ "GRU_step_spec cell x2 h2"])
       (simp add: GRU_step_spec_shape)
qed

lemma LSTMModel_loop_Cons:
  "fst (LSTMModel_loop x (t # rest) (h, c) m) =
     (case select_step x t of
        Inl e \<Rightarrow> Inl e
      | Inr x_t \<Rightarrow>
          (case fst (LSTMCell_forward x_t (Some h, Some c) (lstm m)) of
             Inl e \<Rightarrow> Inl e
           | Inr st \<Rightarrow> fst (LSTMModel_loop x rest st m)))"
  by (simp add: bind_torch bind_call_module_lstm split: sum.splits)

lemma GRUModel_loop_Cons:
  "fst (GRUModel_loop x (t # rest) h m) =
     (case select_step x t of
        Inl e \<Rightarrow> Inl e
      | Inr x_t \<Rightarrow>
          (case fst (GRUCell_forward x_t (Some h) (gru m)) of
             Inl e \<Rightarrow> Inl e
           | Inr h' \<Rightarrow> fst (GRUModel_loop x rest h' m)))"
  by (simp add: bind_torch bind_call_module_gru split: sum.splits)

lemma select_step_ok:
  assumes "wf_tensor3 (Tensor3 T D xs)" "t < T"
  shows "select_step (Tensor3 T D xs) t = Inr (Tensor D (map (\<lambda>s. s ! t) xs))"
    "wf_tensor (Tensor D (map (\<lambda>s. s ! t) xs))"
  using assms
  by (auto simp: select_step_def wf_tensor3_def wf_tensor_def list_all_iff)

lemma wf_tensor3_append:
  "wf_tensor3 (Tensor3 T D (xs @ ys)) \<longleftrightarrow> wf_tensor3 (Tensor3 T D xs) \<and> wf_tensor3 (Tensor3 T D ys)"
  by (auto simp: wf_tensor3_def)

lemma LSTMModel_loop_cat:
  assumes m: "wf_LSTMCell (lstm m)"
    and X: "wf_tensor3 (Tensor3 T D xs)" "wf_tensor3 (Tensor3 T D ys)"
    and idx: "\<forall>t\<in>set idx. t < T"
    and h: "wf_tensor h1" "wf_tensor h2" "ncols h1 = LSTMCell.hidden_size (lstm m)"
           "ncols h2 = LSTMCell.hidden_size (lstm m)" "nrows h1 = length xs" "nrows h2 = length ys"
    and c: "wf_tensor c1" "wf_tensor c2" "ncols c1 = LSTMCell.hidden_size (lstm m)"
           "ncols c2 = LSTMCell.hidden_size (lstm m)" "nrows c1 = length xs" "nrows c2 = length ys"
  shows "(\<exists>ha ca hb cb.
            fst (LSTMModel_loop (Tensor3 T D (xs @ ys)) idx (cat h1 h2, cat c1 c2) m)
              = Inr (cat ha hb, cat ca cb) \<and>
            fst (LSTMModel_loop (Tensor3 T D xs) idx (h1, c1) m) = Inr (ha, ca) \<and>
            fst (LSTMModel_loop (Tensor3 T D ys) idx (h2, c2) m) = Inr (hb, cb) \<and>
            ncols ha = LSTMCell.hidden_size (lstm m) \<and>
            ncols hb = LSTMCell.hidden_size (lstm m)) \<or>
         (fst (LSTMModel_loop (Tensor3 T D (xs @ ys)) idx (cat h1 h2, cat c1 c2) m)
              = Inl ShapeMismatchError \<and>
          fst (LSTMModel_loop (Tensor3 T D xs) idx (h1, c1) m) = Inl ShapeMismatchError \<and>
          fst (LSTMModel_loop (Tensor3 T D ys) idx (h2, c2) m) = Inl ShapeMismatchError)"
  using idx h c
proof (induction idx arbitrary: h1 h2 c1 c2)
  case Nil
  then show ?case by (simp add: ret_apply)
next
  case (Cons t idx)
  have t: "t < T" using Cons.prems(1) by simp
  define x1 where "x1 = Tensor D (map (\<lambda>s. s ! t) xs)"
  define x2 where "x2 = Tensor D (map (\<lambda>s. s ! t) ys)"
  have s1: "select_step (Tensor3 T D xs) t = Inr x1" and wf1: "wf_tensor x1"
    using select_step_ok[OF X(1) t] by (simp_all add: x1_def)
  have s2: "select_step (Tensor3 T D ys) t = Inr x2" and wf2: "wf_tensor x2"
    using select_step_ok[OF X(2) t] by (simp_all add: x2_def)
  have s: "select_step (Tensor3 T D (xs @ ys)) t = Inr (cat x1 x2)"
    using t by (simp add: select_step_append x1_def x2_def)
  have shp: "ncols x2 = ncols x1" "nrows x1 = length xs" "nrows x2 = length ys"
    by (simp_all add: x1_def x2_def nrows_def)
  from LSTMCell_forward_cat[OF m wf1 wf2 shp(1), of h1 h2 c1 c2] Cons.prems shp
  consider
    (ok) ha ca hb cb where
      "fst (LSTMCell_forward (cat x1 x2) (Some (cat h1 h2), Some (cat c1 c2)) (lstm m))
         = Inr (cat ha hb, cat ca cb)"
      "fst (LSTMCell_forward x1 (Some h1, Some c1) (lstm m)) = Inr (ha, ca)"
      "fst (LSTMCell_forward x2 (Some h2, Some c2) (lstm m)) = Inr (hb, cb)"
      "wf_tensor ha" "wf_tensor hb" "ncols ha = LSTMCell.hidden_size (lstm m)"
      "ncols hb = LSTMCell.hidden_size (lstm m)" "nrows ha = length xs" "nrows hb = length ys"
      "wf_tensor ca" "wf_tensor cb" "ncols ca = LSTMCell.hidden_size (lstm m)"
      "ncols cb = LSTMCell.hidden_size (lstm m)" "nrows ca = length xs" "nrows cb = length ys"
  | (err)
      "fst (LSTMCell_forward (cat x1 x2) (Some (cat h1 h2), Some (cat c1 c2)) (lstm m))
         = Inl ShapeMismatchError"
      "fst (LSTMCell_forward x1 (Some h1, Some c1) (lstm m)) = Inl ShapeMismatchError"
      "fst (LSTMCell_forward x2 (Some h2, Some c2) (lstm m)) = Inl ShapeMismatchError"
    by auto
  then show ?case
  proof cases
    case ok
    have tl: "\<forall>t\<in>set idx. t < T" using Cons.prems(1) by simp
    show ?thesis
      using Cons.IH[OF tl ok(4,5,6,7,8,9,10,11,12,13,14,15)]
      by (simp add: LSTMModel_loop_Cons s s1 s2 ok(1,2,3) del: LSTMModel_loop.simps)
  next
    case err
    then show ?thesis by (simp add: LSTMModel_loop_Cons s s1 s2 del: LSTMModel_loop.simps)
  qed
qed

lemma GRUModel_loop_cat:
  assumes m: "wf_GRUCell (gru m)"
    and X: "wf_tensor3 (Tensor3 T D xs)" "wf_tensor3 (Tensor3 T D ys)"
    and idx: "\<forall>t\<in>set idx. t < T"
    and h: "wf_tensor h1" "wf_tensor h2" "ncols h1 = GRUCell.hidden_size (gru m)"
           "ncols h2 = GRUCell.hidden_size (gru m)" "nrows h1 = length xs" "nrows h2 = length ys"
  shows "(\<exists>ha hb.
            fst (GRUModel_loop (Tensor3 T D (xs @ ys)) idx (cat h1 h2) m) = Inr (cat ha hb) \<and>
            fst (GRUModel_loop (Tensor3 T D xs) idx h1 m) = Inr ha \<and>
            fst (GRUModel_loop (Tensor3 T D ys) idx h2 m) = Inr hb \<and>
            ncols ha = GRUCell.hidden_size (gru m) \<and>
            ncols hb = GRUCell.hidden_size (gru m)) \<or>
         (fst (GRUModel_loop (Tensor3 T D (xs @ ys)) idx (cat h1 h2) m) = Inl ShapeMismatchError \<and>
          fst (GRUModel_loop (Tensor3 T D xs) idx h1 m) = Inl ShapeMismatchError \<and>
          fst (GRUModel_loop (Tensor3 T D ys) idx h2 m) = Inl ShapeMismatchError)"
  using idx h
proof (induction idx arbitrary: h1 h2)
  case Nil
  then show ?case by (simp add: ret_apply)
next
  case (Cons t idx)
  have t: "t < T" using Cons.prems(1) by simp
  define x1 where "x1 = Tensor D (map (\<lambda>s. s ! t) xs)"
  define x2 where "x2 = Tensor D (map (\<lambda>s. s ! t) ys)"
  have s1: "select_step (Tensor3 T D xs) t = Inr x1" and wf1: "wf_tensor x1"
    using select_step_ok[OF X(1) t] by (simp_all add: x1_def)
  have s2: "select_step (Tensor3 T D ys) t = Inr x2" and wf2: "wf_tensor x2"
    using select_step_ok[OF X(2) t] by (simp_all add: x2_def)
  have s: "select_step (Tensor3 T D (xs @ ys)) t = Inr (cat x1 x2)"
    using t by (simp add: select_step_append x1_def x2_def)
  have shp: "ncols x2 = ncols x1" "nrows x1 = length xs" "nrows x2 = length ys"
    by (simp_all add: x1_def x2_def nrows_def)
  from GRUCell_forward_cat[OF m wf1 wf2 shp(1), of h1 h2] Cons.prems shp
  consider
    (ok) ha hb where
      "fst (GRUCell_forward (cat x1 x2) (Some (cat h1 h2)) (gru m)) = Inr (cat ha hb)"
      "fst (GRUCell_forward x1 (Some h1) (gru m)) = Inr ha"
      "fst (GRUCell_forward x2 (Some h2) (gru m)) = Inr hb"
      "wf_tensor ha" "wf_tensor hb" "ncols ha = GRUCell.hidden_size (gru m)"
      "ncols hb = GRUCell.hidden_size (gru m)" "nrows ha = length xs" "nrows hb = length ys"
  | (err)
      "fst (GRUCell_forward (cat x1 x2) (Some (cat h1 h2)) (gru m)) = Inl ShapeMismatchError"
      "fst (GRUCell_forward x1 (Some h1) (gru m)) = Inl ShapeMismatchError"
      "fst (GRUCell_forward x2 (Some h2) (gru m)) = Inl ShapeMismatchError"
    by auto
  then show ?case
  proof cases
    case ok
    have tl: "\<forall>t\<in>set idx. t < T" using Cons.prems(1) by simp
    show ?thesis
      using Cons.IH[OF tl ok(4,5,6,7,8,9)]
      by (simp add: GRUModel_loop_Cons s s1 s2 ok(1,2,3) del: GRUModel_loop.simps)
  next
    case err
    then show ?thesis by (simp add: GRUModel_loop_Cons s s1 s2 del: GRUModel_loop.simps)
  qed
qed

lemma Linear_forward_cat:
  assumes "ncols b = ncols a"
  shows "Linear_forward L (Some (cat a b)) =
           stack (Linear_forward L (Some a)) (Linear_forward L (Some b))"
  using assms by (simp add: Linear_forward_def cat_def)

lemma LSTMModel_forward_fst:
  "fst (LSTMModel_forward x m) =
     (case fst (LSTMModel_loop x [0..<size1 x]
                  (zeros (size0 x) (LSTMModel.hidden_size m),
                   zeros (size0 x) (LSTMModel.hidden_size m)) m) of
        Inl e \<Rightarrow> Inl e
      | Inr (h, c) \<Rightarrow> Linear_forward (LSTMModel.fc m) (Some h))"
  by (simp add: LSTMModel_forward_def bind_frame[OF LSTMModel_loop_frame] call_Linear_def
           split: sum.splits prod.splits)

lemma GRUModel_forward_fst:
  "fst (GRUModel_forward x m) =
     (case fst (GRUModel_loop x [0..<size1 x] (zeros (size0 x) (GRUModel.hidden_size m)) m) of
        Inl e \<Rightarrow> Inl e
      | Inr h \<Rightarrow> Linear_forward (GRUModel.fc m) (Some h))"
  by (simp add: GRUModel_forward_def bind_frame[OF GRUModel_loop_frame] call_Linear_def
           split: sum.splits)

lemma LSTMModel_forward_cat:
  assumes m: "wf_LSTMModel m" and X: "wf_tensor3 (Tensor3 T D (xs @ ys))"
  shows "fst (LSTMModel_forward (Tensor3 T D (xs @ ys)) m) =
           stack (fst (LSTMModel_forward (Tensor3 T D xs) m))
                 (fst (LSTMModel_forward (Tensor3 T D ys) m))"
proof -
  define H where "H = LSTMModel.hidden_size m"
  have cell: "wf_LSTMCell (lstm m)" and HH: "LSTMCell.hidden_size (lstm m) = H"
    using m by (simp_all add: wf_LSTMModel_def H_def)
  have X12: "wf_tensor3 (Tensor3 T D xs)" "wf_tensor3 (Tensor3 T D ys)"
    using X by (simp_all add: wf_tensor3_append)
  have idx: "\<forall>t\<in>set [0..<T]. t < T" by simp
  from LSTMModel_loop_cat[OF cell X12 idx, of "zeros (length xs) H" "zeros (length ys) H"
        "zeros (length xs) H" "zeros (length ys) H"]
  show ?thesis
    by (auto simp: LSTMModel_forward_fst size0_def zeros_cat[symmetric] zeros_wf HH
                   H_def[symmetric] Linear_forward_cat)
qed

lemma GRUModel_forward_cat:
  assumes m: "wf_GRUModel m" and X: "wf_tensor3 (Tensor3 T D (xs @ ys))"
  shows "fst (GRUModel_forward (Tensor3 T D (xs @ ys)) m) =
           stack (fst (GRUModel_forward (Tensor3 T D xs) m))
                 (fst (GRUModel_forward (Tensor3 T D ys) m))"
proof -
  define H where "H = GRUModel.hidden_size m"
  have cell: "wf_GRUCell (gru m)" and HH: "GRUCell.hidden_size (gru m) = H"
    using m by (simp_all add: wf_GRUModel_def H_def)
  have X12: "wf_tensor3 (Tensor3 T D xs)" "wf_tensor3 (Tensor3 T D ys)"
    using X by (simp_all add: wf_tensor3_append)
  have idx: "\<forall>t\<in>set [0..<T]. t < T" by simp
  from GRUModel_loop_cat[OF cell X12 idx, of "zeros (length xs) H" "zeros (length ys) H"]
  show ?thesis
    by (auto simp: GRUModel_forward_fst size0_def zeros_cat[symmetric] zeros_wf HH
                   H_def[symmetric] Linear_forward_cat)
qed

section \<open>Shape errors and missing state\<close>

lemma LSTMModel_forward_mismatch:
  assumes "in_features (x_fc (lstm m)) = LSTMCell.input_size (lstm m)"
    "0 < size1 x" "size2 x \<noteq> LSTMCell.input_size (lstm m)"
  shows "LSTMModel_forward x m = (Inl ShapeMismatchError, m)"
proof -
  have u: "[0..<size1 x] = 0 # [1..<size1 x]"
    using assms(2) by (simp add: upt_conv_Cons)
  have "fst (LSTMModel_forward x m) = Inl ShapeMismatchError"
    using assms
    by (simp add: LSTMModel_forward_fst u LSTMModel_loop_Cons select_step_def
                  LSTMCell_forward_mismatch del: LSTMModel_loop.simps)
  then show ?thesis
    using LSTMModel_forward_frame[of x m] by (simp add: prod_eq_iff)
qed

lemma GRUModel_forward_mismatch:
  assumes "in_features (x_z_fc (gru m)) = GRUCell.input_size (gru m)"
    "0 < size1 x" "size2 x \<noteq> GRUCell.input_size (gru m)"
  shows "GRUModel_forward x m = (Inl ShapeMismatchError, m)"
proof -
  have u: "[0..<size1 x] = 0 # [1..<size1 x]"
    using assms(2) by (simp add: upt_conv_Cons)
  have "fst (GRUModel_forward x m) = Inl ShapeMismatchError"
    using assms
    by (simp add: GRUModel_forward_fst u GRUModel_loop_Cons select_step_def
                  GRUCell_forward_mismatch del: GRUModel_loop.simps)
  then show ?thesis
    using GRUModel_forward_frame[of x m] by (simp add: prod_eq_iff)
qed

lemma LSTMCell_forward_None:
  assumes "h = None \<or> c = None"
  shows "fst (LSTMCell_forward x (h, c) self) = Inl AttributeError \<or>
         fst (LSTMCell_forward x (h, c) self) = Inl ShapeMismatchError"
  using assms
  by (auto simp: LSTMCell_forward_def bind_torch view_flat_def split: option.splits)

lemma GRUCell_forward_None:
  "fst (GRUCell_forward x None self) = Inl TypeError \<or>
   fst (GRUCell_forward x None self) = Inl ShapeMismatchError"
  by (auto simp: GRUCell_forward_def bind_torch bind_call_Linear Linear_forward_def)

lemma expand_length: "length xs = n \<or> length xs = 1 \<Longrightarrow> length (expand n xs) = n"
  by (auto simp: expand_def)

lemma length_expand [simp]: "length (expand n xs) = n"
  by (simp add: expand_def)

lemma tensor_binop_Inr:
  assumes "tensor_binop f a b = Inr y"
  shows "broadcast_size (nrows a) (nrows b) = Some (nrows y)"
        "broadcast_size (ncols a) (ncols b) = Some (ncols y)"
  using assms
  by (auto simp: tensor_binop_def nrows_def split: option.splits)

lemma broadcast_size_Some:
  "broadcast_size m n = Some k \<longleftrightarrow> (m = n \<and> k = m) \<or> (m = 1 \<and> k = n) \<or> (n = 1 \<and> k = m)"
  by (auto simp: broadcast_size_def)

lemma Linear_forward_nrows:
  "Linear_forward L (Some t) = Inr y \<Longrightarrow> nrows y = nrows t"
  by (auto simp: Linear_forward_def nrows_def split: if_splits)

lemma GRUCell_forward_state:
  assumes "fst (GRUCell_forward x h self) = Inr r"
  shows "\<exists>h'. h = Some h' \<and> ncols x = in_features (x_z_fc self) \<and>
               ncols h' = in_features (h_z_fc self) \<and>
               (nrows h' = nrows x \<or> nrows h' = 1 \<or> nrows x = 1)"
proof -
  obtain xz where xz: "Linear_forward (x_z_fc self) (Some x) = Inr xz"
    using assms by (cases "Linear_forward (x_z_fc self) (Some x)")
      (simp_all add: GRUCell_forward_def bind_call_Linear)
  obtain hz where hz: "Linear_forward (h_z_fc self) h = Inr hz"
    using assms xz by (cases "Linear_forward (h_z_fc self) h")
      (simp_all add: GRUCell_forward_def bind_call_Linear)
  obtain h' where h': "h = Some h'"
    using hz by (cases h) (simp_all add: Linear_forward_def)
  obtain z where z: "tensor_add xz hz = Inr z"
    using assms xz hz by (cases "tensor_add xz hz")
      (simp_all add: GRUCell_forward_def bind_call_Linear bind_torch)
  have "broadcast_size (nrows x) (nrows h') = Some (nrows z)"
    using tensor_binop_Inr(1)[OF z[unfolded tensor_add_def]]
      Linear_forward_nrows[OF xz] Linear_forward_nrows[OF hz[unfolded h']] by simp
  then have "nrows h' = nrows x \<or> nrows h' = 1 \<or> nrows x = 1"
    by (auto simp: broadcast_size_Some)
  moreover have "ncols x = in_features (x_z_fc self)" "ncols h' = in_features (h_z_fc self)"
    using Linear_forward_rows(1)[OF xz] Linear_forward_rows(1)[OF hz[unfolded h']] by simp_all
  ultimately show ?thesis using h' by simp
qed

lemma LSTMCell_forward_state:
  assumes "fst (LSTMCell_forward x (h, c) self) = Inr r"
  shows "\<exists>h' c'. h = Some h' \<and> c = Some c' \<and> ncols x = in_features (x_fc self) \<and>
               ncols h' = in_features (h_fc self) \<and> 0 < ncols h' \<and> 0 < ncols c' \<and>
               (nrows h' = nrows x \<or> nrows h' = 1 \<or> nrows x = 1)"
proof -
  have xp: "0 < ncols x"
    using assms by (cases "ncols x = 0") (simp_all add: LSTMCell_forward_def bind_torch view_flat_def)
  obtain h' where h': "h = Some h'"
    using assms xp by (cases h) (simp_all add: LSTMCell_forward_def bind_torch view_flat_def)
  have hp: "0 < ncols h'"
    using assms xp h'
    by (cases "ncols h' = 0") (simp_all add: LSTMCell_forward_def bind_torch view_flat_def)
  obtain c' where c': "c = Some c'"
    using assms xp h' hp
    by (cases c) (simp_all add: LSTMCell_forward_def bind_torch view_flat_def)
  have cp: "0 < ncols c'"
    using assms xp h' hp c'
    by (cases "ncols c' = 0") (simp_all add: LSTMCell_forward_def bind_torch view_flat_def)
  have nz: "ncols x \<noteq> 0" "ncols h' \<noteq> 0" "ncols c' \<noteq> 0" using xp hp cp by simp_all
  note v = view_flat_def h' c' nz
  obtain gx where gx: "Linear_forward (x_fc self) (Some x) = Inr gx"
    using assms by (cases "Linear_forward (x_fc self) (Some x)")
      (simp_all add: LSTMCell_forward_def bind_call_Linear bind_torch v)
  obtain gh where gh: "Linear_forward (h_fc self) (Some h') = Inr gh"
    using assms gx by (cases "Linear_forward (h_fc self) (Some h')")
      (simp_all add: LSTMCell_forward_def bind_call_Linear bind_torch v)
  obtain gates where g: "tensor_add gx gh = Inr gates"
    using assms gx gh by (cases "tensor_add gx gh")
      (simp_all add: LSTMCell_forward_def bind_call_Linear bind_torch v)
  have "broadcast_size (nrows x) (nrows h') = Some (nrows gates)"
    using tensor_binop_Inr(1)[OF g[unfolded tensor_add_def]]
      Linear_forward_nrows[OF gx] Linear_forward_nrows[OF gh] by simp
  then have "nrows h' = nrows x \<or> nrows h' = 1 \<or> nrows x = 1"
    by (auto simp: broadcast_size_Some)
  moreover have "ncols x = in_features (x_fc self)" "ncols h' = in_features (h_fc self)"
    using Linear_forward_rows(1)[OF gx] Linear_forward_rows(1)[OF gh] by simp_all
  ultimately show ?thesis using h' c' hp cp by simp
qed

lemma sigmoid_0: "sigmoid 0 = 1 / 2"
  by (simp add: sigmoid_def)



section \<open>Parameter initialisation\<close>

lemma LSTMCell_forward_memory:
  assumes cell: "wf_LSTMCell self"
    and run: "fst (LSTMCell_forward x (Some h', Some c') self) = Inr r"
  shows "(ncols c' = LSTMCell.hidden_size self \<or> ncols c' = 1 \<or> LSTMCell.hidden_size self = 1) \<and>
         (nrows c' = nrows x \<or> nrows c' = nrows h' \<or> nrows c' = 1 \<or>
          (nrows x = 1 \<and> nrows h' = 1))"
proof -
  define H where "H = LSTMCell.hidden_size self"
  from LSTMCell_forward_state[OF run]
  have st: "ncols x = in_features (x_fc self)" "ncols h' = in_features (h_fc self)"
      "0 < ncols h'" "0 < ncols c'" by auto
  have xp: "ncols x \<noteq> 0"
    using run by (cases "ncols x = 0") (simp_all add: LSTMCell_forward_def bind_torch view_flat_def)
  have nz: "ncols h' \<noteq> 0" "ncols c' \<noteq> 0" using st by simp_all
  have Hp: "0 < H" using cell st by (simp add: wf_LSTMCell_def H_def)
  note v = view_flat_def xp nz
  obtain gx where gx: "Linear_forward (x_fc self) (Some x) = Inr gx"
    by (simp add: Linear_forward_def st)
  obtain gh where gh: "Linear_forward (h_fc self) (Some h') = Inr gh"
    by (simp add: Linear_forward_def st)
  obtain gates where g: "tensor_add gx gh = Inr gates"
    using run gx gh by (cases "tensor_add gx gh")
      (simp_all add: LSTMCell_forward_def bind_call_Linear bind_torch v)
  have gc: "ncols gates = 4 * H"
    using tensor_binop_Inr(2)[OF g[unfolded tensor_add_def]]
      Linear_forward_rows(2)[OF gx] Linear_forward_rows(2)[OF gh] cell
    by (simp add: wf_LSTMCell_def broadcast_size_def H_def)
  have gr: "broadcast_size (nrows x) (nrows h') = Some (nrows gates)"
    using tensor_binop_Inr(1)[OF g[unfolded tensor_add_def]]
      Linear_forward_nrows[OF gx] Linear_forward_nrows[OF gh] by simp
  obtain fc where fc: "torch_mul (tensor_sigmoid (narrow H H gates)) (Some c') = Inr fc"
    using run gx gh g chunk4[OF Hp gc]
    by (cases "torch_mul (tensor_sigmoid (narrow H H gates)) (Some c')")
       (simp_all add: LSTMCell_forward_def bind_call_Linear bind_torch v unpack4_def)
  from tensor_binop_Inr[OF fc[unfolded torch_mul_def option.case]]
  have "broadcast_size (nrows gates) (nrows c') = Some (nrows fc)"
       "broadcast_size H (ncols c') = Some (ncols fc)"
    by (simp_all add: tensor_sigmoid_def)
  then show ?thesis
    using gr unfolding H_def[symmetric] by (auto simp: broadcast_size_Some)
qed

lemma uniform_list_length [simp]: "length (fst (uniform_list n lo hi g)) = n"
  by (simp add: uniform_list_def)

lemma uniform_list_gen [simp]:
  "draws (snd (uniform_list n lo hi g)) = draws g" "pos (snd (uniform_list n lo hi g)) = pos g + n"
  by (simp_all add: uniform_list_def)

lemma uniform_list_range:
  assumes "unit_draws g" "lo \<le> hi" "v \<in> set (fst (uniform_list n lo hi g))"
  shows "lo \<le> v \<and> v \<le> hi"
proof -
  obtain k where v: "v = lo + (hi - lo) * draws g (pos g + k)"
    using assms(3) by (auto simp: uniform_list_def)
  have u: "0 \<le> draws g (pos g + k)" "draws g (pos g + k) \<le> 1"
    using assms(1) by (simp_all add: unit_draws_def)
  have "0 \<le> (hi - lo) * draws g (pos g + k)"
    using u(1) assms(2) by simp
  moreover have "(hi - lo) * draws g (pos g + k) \<le> (hi - lo) * 1"
    using u(2) assms(2) by (intro mult_left_mono) simp_all
  ultimately show ?thesis unfolding v by simp
qed

lemma concat_reshape: "concat (reshape r c vals) = take (r * c) vals"
proof (induction r)
  case 0
  show ?case by (simp add: reshape_def)
next
  case (Suc r)
  have "concat (reshape (Suc r) c vals) = concat (reshape r c vals) @ take c (drop (r * c) vals)"
    by (simp add: reshape_def)
  also have "\<dots> = take (r * c) vals @ take c (drop (r * c) vals)"
    by (simp add: Suc.IH)
  also have "\<dots> = take (r * c + c) vals"
    by (simp add: take_add)
  finally show ?case by (simp add: add.commute)
qed

lemma reshape_shape:
  "length (reshape r c vals) = r"
  "length vals = r * c \<Longrightarrow> list_all (\<lambda>w. length w = c) (reshape r c vals)"
proof -
  show "length (reshape r c vals) = r" by (simp add: reshape_def)
  assume len: "length vals = r * c"
  have "min (r * c - i * c) c = c" if "i < r" for i
  proof -
    have "Suc i * c \<le> r * c" using that by (intro mult_le_mono1) simp
    then have "i * c + c \<le> r * c" by (simp add: add.commute)
    then show ?thesis by simp
  qed
  then show "list_all (\<lambda>w. length w = c) (reshape r c vals)"
    using len by (auto simp: reshape_def list_all_iff)
qed

lemma uniform_matrix_facts:
  "concat (fst (uniform_matrix r c lo hi g)) = fst (uniform_list (r * c) lo hi g)"
  "snd (uniform_matrix r c lo hi g) = snd (uniform_list (r * c) lo hi g)"
  "length (fst (uniform_matrix r c lo hi g)) = r"
  "list_all (\<lambda>w. length w = c) (fst (uniform_matrix r c lo hi g))"
  by (simp_all add: uniform_matrix_def split_beta concat_reshape reshape_shape)

lemma uniform_list_append:
  "fst (uniform_list n lo hi g) @ fst (uniform_list m lo hi (snd (uniform_list n lo hi g)))
     = fst (uniform_list (n + m) lo hi g)"
proof -
  define F where "F = (\<lambda>k. lo + (hi - lo) * draws g (pos g + k))"
  have 1: "fst (uniform_list n lo hi g) = map F [0..<n]"
    by (simp add: uniform_list_def F_def)
  have 2: "fst (uniform_list m lo hi (snd (uniform_list n lo hi g))) = map (\<lambda>k. F (n + k)) [0..<m]"
    by (simp add: uniform_list_def F_def add.assoc)
  have 3: "map (\<lambda>k. F (n + k)) [0..<m] = map F [n..<n + m]"
    by (rule nth_equalityI) simp_all
  have "[0..<n + m] = [0..<n] @ [n..<n + m]"
    by (rule upt_add_eq_append) simp
  then have 4: "fst (uniform_list (n + m) lo hi g) = map F ([0..<n] @ [n..<n + m])"
    by (simp add: uniform_list_def F_def)
  show ?thesis by (simp add: 1 2 3 4)
qed

lemma uniform_list_snd: "snd (uniform_list n lo hi g) = Generator (draws g) (pos g + n)"
  by (simp add: uniform_list_def)

lemma Linear_fill:
  assumes "uniform_matrix r c lo hi g = (w, g1)" "uniform_list r lo hi g1 = (b, g2)"
  shows "concat w @ b = fst (uniform_list (r * c + r) lo hi g)"
    "g2 = Generator (draws g) (pos g + (r * c + r))"
    "length w = r" "length b = r" "list_all (\<lambda>v. length v = c) w"
proof -
  have w: "w = fst (uniform_matrix r c lo hi g)" and g1: "g1 = snd (uniform_list (r * c) lo hi g)"
    using assms(1) uniform_matrix_facts(2)[of r c lo hi g] by (simp_all add: prod_eq_iff)
  have b: "b = fst (uniform_list r lo hi g1)" and g2: "g2 = snd (uniform_list r lo hi g1)"
    using assms(2) by (simp_all add: prod_eq_iff)
  show "concat w @ b = fst (uniform_list (r * c + r) lo hi g)"
    unfolding w b g1 uniform_matrix_facts(1) by (rule uniform_list_append)
  show "g2 = Generator (draws g) (pos g + (r * c + r))"
    unfolding g2 g1 by (simp add: uniform_list_snd add.assoc)
  show "length w = r" "length b = r" "list_all (\<lambda>v. length v = c) w"
    unfolding w b by (simp_all add: uniform_matrix_facts)
qed

lemma Linear_init_facts:
  assumes "Linear_init n_in n_out g = (L, g')"
  shows "wf_Linear L" "in_features L = n_in" "out_features L = n_out"
    "g' = Generator (draws g) (pos g + (n_out * n_in + n_out))"
    "Linear_parameters L =
       fst (uniform_list (n_out * n_in + n_out)
              (- (if 0 < n_in then 1 / sqrt (real n_in) else 0))
              (if 0 < n_in then 1 / sqrt (real n_in) else 0) g)"
proof -
  define bound :: real where "bound = (if 0 < n_in then 1 / sqrt (real n_in) else 0)"
  obtain w g1 where w: "uniform_matrix n_out n_in (- bound) bound g = (w, g1)"
    by (cases "uniform_matrix n_out n_in (- bound) bound g")
  obtain b g2 where b: "uniform_list n_out (- bound) bound g1 = (b, g2)"
    by (cases "uniform_list n_out (- bound) bound g1")
  have L: "L = \<lparr>in_features = n_in, out_features = n_out, weight = w, bias = b\<rparr>" and g': "g' = g2"
    using assms w b by (simp_all add: Linear_init_def Let_def bound_def[symmetric])
  note f = Linear_fill[OF w b]
  show "wf_Linear L" "in_features L = n_in" "out_features L = n_out"
    using f(3-5) by (simp_all add: L wf_Linear_def)
  show "g' = Generator (draws g) (pos g + (n_out * n_in + n_out))"
    using f(2) g' by simp
  show "Linear_parameters L =
       fst (uniform_list (n_out * n_in + n_out)
              (- (if 0 < n_in then 1 / sqrt (real n_in) else 0))
              (if 0 < n_in then 1 / sqrt (real n_in) else 0) g)"
    using f(1) by (simp add: L Linear_parameters_def bound_def)
qed

lemma Linear_uniform_facts:
  assumes "Linear_uniform sz L g = (L', g')"
  shows "wf_Linear L'" "in_features L' = in_features L" "out_features L' = out_features L"
    "g' = Generator (draws g) (pos g + (out_features L * in_features L + out_features L))"
    "Linear_parameters L' =
       fst (uniform_list (out_features L * in_features L + out_features L) (- sz) sz g)"
proof -
  obtain w g1 where w: "uniform_matrix (out_features L) (in_features L) (- sz) sz g = (w, g1)"
    by (cases "uniform_matrix (out_features L) (in_features L) (- sz) sz g")
  obtain b g2 where b: "uniform_list (out_features L) (- sz) sz g1 = (b, g2)"
    by (cases "uniform_list (out_features L) (- sz) sz g1")
  have L': "L' = L\<lparr>weight := w, bias := b\<rparr>" and g': "g' = g2"
    using assms w b by (simp_all add: Linear_uniform_def)
  note f = Linear_fill[OF w b]
  show "wf_Linear L'" "in_features L' = in_features L" "out_features L' = out_features L"
    using f(3-5) by (simp_all add: L' wf_Linear_def)
  show "g' = Generator (draws g) (pos g + (out_features L * in_features L + out_features L))"
    using f(2) g' by simp
  show "Linear_parameters L' =
       fst (uniform_list (out_features L * in_features L + out_features L) (- sz) sz g)"
    using f(1) by (simp add: L' Linear_parameters_def)
qed

lemma LSTMCell_init_facts:
  fixes input_sz hidden_sz :: nat
  assumes "0 < hidden_sz"
  defines "n1 \<equiv> 4 * hidden_sz * input_sz + 4 * hidden_sz"
    and "n2 \<equiv> 4 * hidden_sz * hidden_sz + 4 * hidden_sz"
  shows "\<exists>cell.
           LSTMCell_init input_sz hidden_sz g
             = Inr (cell, Generator (draws g) (pos g + (n1 + n2) + (n1 + n2))) \<and>
           wf_LSTMCell cell \<and> LSTMCell.input_size cell = input_sz \<and>
           LSTMCell.hidden_size cell = hidden_sz \<and>
           LSTMCell_parameters cell =
             fst (uniform_list (n1 + n2) (- sqrt (3 / real hidden_sz)) (sqrt (3 / real hidden_sz))
                    (Generator (draws g) (pos g + (n1 + n2))))"
proof -
  define sz where "sz = sqrt (3 / real hidden_sz)"
  obtain xl g1 where xl: "Linear_init input_sz (4 * hidden_sz) g = (xl, g1)"
    by (cases "Linear_init input_sz (4 * hidden_sz) g")
  obtain hl g2 where hl: "Linear_init hidden_sz (4 * hidden_sz) g1 = (hl, g2)"
    by (cases "Linear_init hidden_sz (4 * hidden_sz) g1")
  obtain xl' g3 where xl': "Linear_uniform sz xl g2 = (xl', g3)"
    by (cases "Linear_uniform sz xl g2")
  obtain hl' g4 where hl': "Linear_uniform sz hl g3 = (hl', g4)"
    by (cases "Linear_uniform sz hl g3")
  note a = Linear_init_facts[OF xl] and b = Linear_init_facts[OF hl]
    and c = Linear_uniform_facts[OF xl'] and d = Linear_uniform_facts[OF hl']
  define cell where "cell = \<lparr>LSTMCell.input_size = input_sz, LSTMCell.hidden_size = hidden_sz,
                               x_fc = xl', h_fc = hl'\<rparr>"
  have g1: "g1 = Generator (draws g) (pos g + n1)"
    using a(4) by (simp add: n1_def)
  have g2: "g2 = Generator (draws g) (pos g + (n1 + n2))"
    using b(4) by (simp add: g1 n2_def add.assoc)
  have g3: "g3 = snd (uniform_list n1 (- sz) sz g2)"
    using c(4) a(2,3) by (simp add: uniform_list_snd n1_def)
  have g4: "g4 = Generator (draws g) (pos g + (n1 + n2) + (n1 + n2))"
    using d(4) b(2,3) by (simp add: g3 g2 n2_def add.assoc)
  have run: "LSTMCell_init input_sz hidden_sz g = Inr (cell, g4)"
    using assms(1) xl hl xl' hl'
    by (simp add: LSTMCell_init_def LSTMCell_reset_parameters_def Let_def sz_def[symmetric]
                  cell_def)
  have wf: "wf_LSTMCell cell"
    using a(2,3) b(2,3) c(1-3) d(1-3) by (simp add: wf_LSTMCell_def cell_def)
  have "LSTMCell_parameters cell =
          fst (uniform_list n1 (- sz) sz g2) @ fst (uniform_list n2 (- sz) sz g3)"
    using c(5) d(5) a(2,3) b(2,3)
    by (simp add: LSTMCell_parameters_def cell_def n1_def n2_def)
  also have "\<dots> = fst (uniform_list (n1 + n2) (- sz) sz g2)"
    unfolding g3 by (rule uniform_list_append)
  finally have par: "LSTMCell_parameters cell =
      fst (uniform_list (n1 + n2) (- sz) sz (Generator (draws g) (pos g + (n1 + n2))))"
    by (simp add: g2)
  have sel: "LSTMCell.input_size cell = input_sz" "LSTMCell.hidden_size cell = hidden_sz"
    by (simp_all add: cell_def)
  show ?thesis
    using run wf sel par unfolding g4 sz_def by (intro exI[of _ cell] conjI)
qed

lemma unit_draws_Generator: "unit_draws (Generator (draws g) p) = unit_draws g"
  by (simp add: unit_draws_def)

lemma GRUCell_init_facts:
  shows "wf_GRUCell (fst (GRUCell_init input_sz hidden_sz g))"
    "GRUCell.input_size (fst (GRUCell_init input_sz hidden_sz g)) = input_sz"
    "GRUCell.hidden_size (fst (GRUCell_init input_sz hidden_sz g)) = hidden_sz"
    "Linear_parameters (x_r_fc (fst (GRUCell_init input_sz hidden_sz g))) =
       fst (uniform_list (hidden_sz * input_sz + hidden_sz)
              (- (if 0 < input_sz then 1 / sqrt (real input_sz) else 0))
              (if 0 < input_sz then 1 / sqrt (real input_sz) else 0) g)"
proof -
  obtain xr g1 where xr: "Linear_init input_sz hidden_sz g = (xr, g1)"
    by (cases "Linear_init input_sz hidden_sz g")
  obtain xz g2 where xz: "Linear_init input_sz hidden_sz g1 = (xz, g2)"
    by (cases "Linear_init input_sz hidden_sz g1")
  obtain xh g3 where xh: "Linear_init input_sz hidden_sz g2 = (xh, g3)"
    by (cases "Linear_init input_sz hidden_sz g2")
  obtain hr g4 where hr: "Linear_init hidden_sz hidden_sz g3 = (hr, g4)"
    by (cases "Linear_init hidden_sz hidden_sz g3")
  obtain hz g5 where hz: "Linear_init hidden_sz hidden_sz g4 = (hz, g5)"
    by (cases "Linear_init hidden_sz hidden_sz g4")
  obtain hrh g6 where hrh: "Linear_init hidden_sz hidden_sz g5 = (hrh, g6)"
    by (cases "Linear_init hidden_sz hidden_sz g5")
  have cell: "fst (GRUCell_init input_sz hidden_sz g) =
      \<lparr>GRUCell.input_size = input_sz, GRUCell.hidden_size = hidden_sz,
        x_r_fc = xr, x_z_fc = xz, x_h_fc = xh, h_r_fc = hr, h_z_fc = hz, hr_h_fc = hrh\<rparr>"
    by (simp add: GRUCell_init_def xr xz xh hr hz hrh)
  note f = Linear_init_facts[OF xr] Linear_init_facts[OF xz] Linear_init_facts[OF xh]
    Linear_init_facts[OF hr] Linear_init_facts[OF hz] Linear_init_facts[OF hrh]
  show "wf_GRUCell (fst (GRUCell_init input_sz hidden_sz g))"
    unfolding cell wf_GRUCell_def using f(1-3,6-8,11-13,16-18,21-23,26-28) by simp
  show "GRUCell.input_size (fst (GRUCell_init input_sz hidden_sz g)) = input_sz"
    "GRUCell.hidden_size (fst (GRUCell_init input_sz hidden_sz g)) = hidden_sz"
    unfolding cell by simp_all
  show "Linear_parameters (x_r_fc (fst (GRUCell_init input_sz hidden_sz g))) =
       fst (uniform_list (hidden_sz * input_sz + hidden_sz)
              (- (if 0 < input_sz then 1 / sqrt (real input_sz) else 0))
              (if 0 < input_sz then 1 / sqrt (real input_sz) else 0) g)"
    unfolding cell using f(5) by simp
qed

section \<open>The concrete modules\<close>

lemma example_wf:
  "wf_Linear zero_Linear_1_4" "wf_Linear zero_Linear_1_1"
  "wf_LSTMCell example_LSTMCell" "wf_LSTMModel example_LSTMModel"
  "wf_GRUCell example_GRUCell" "wf_GRUModel example_GRUModel"
  by (simp_all add: wf_Linear_def wf_LSTMCell_def wf_LSTMModel_def wf_GRUCell_def wf_GRUModel_def
        zero_Linear_1_4_def zero_Linear_1_1_def example_LSTMCell_def example_LSTMModel_def
        example_GRUCell_def example_GRUModel_def)

lemma unit_draws_constant: "0 \<le> u \<Longrightarrow> u \<le> 1 \<Longrightarrow> unit_draws (constant_generator u)"
  by (simp add: unit_draws_def constant_generator_def)

lemma example_LSTMCell_broadcast:
  "LSTMCell_forward (Tensor 1 [[0], [0]]) (Some (Tensor 1 [[0]]), Some (Tensor 1 [[0]]))
     example_LSTMCell
   = (Inr (Tensor 1 [[0], [0]], Tensor 1 [[0], [0]]), example_LSTMCell)"
proof -
  have ch: "chunk 4 (Tensor 4 [[0, 0, 0, 0], [0, 0, 0, 0]]) =
             [Tensor 1 [[0], [0]], Tensor 1 [[0], [0]], Tensor 1 [[0], [0]], Tensor 1 [[0], [0]]]"
    using chunk4[of 1 "Tensor 4 [[0, 0, 0, 0], [0, 0, 0, 0]]"] by (simp add: narrow_def)
  show ?thesis
    by (simp add: LSTMCell_forward_def bind_torch bind_call_Linear ret_apply view_flat_def
          example_LSTMCell_def zero_Linear_1_4_def Linear_forward_def dot_def tensor_add_def
          tensor_binop_def broadcast_size_def nrows_def expand_def ch unpack4_def
          tensor_sigmoid_def tensor_tanh_def map_tensor_def torch_mul_def sigmoid_0)
qed

lemma example_GRUCell_broadcast:
  "GRUCell_forward (Tensor 1 [[0], [0]]) (Some (Tensor 1 [[0]])) example_GRUCell
   = (Inr (Tensor 1 [[0], [0]]), example_GRUCell)"
  by (simp add: GRUCell_forward_def bind_torch bind_call_Linear ret_apply
        example_GRUCell_def zero_Linear_1_1_def Linear_forward_def dot_def tensor_add_def
        tensor_binop_def broadcast_size_def nrows_def expand_def rsub_def
        tensor_sigmoid_def tensor_tanh_def map_tensor_def torch_mul_def sigmoid_0)

lemma example_LSTMModel_zero_steps:
  "LSTMModel_forward (Tensor3 0 5 [[]]) example_LSTMModel = (Inr (Tensor 1 [[0]]), example_LSTMModel)"
  by (simp add: LSTMModel_forward_def bind_def ret_apply call_Linear_def size0_def zeros_def
        example_LSTMModel_def zero_Linear_1_1_def Linear_forward_def dot_def)

lemma example_GRUModel_zero_steps:
  "GRUModel_forward (Tensor3 0 5 [[]]) example_GRUModel = (Inr (Tensor 1 [[0]]), example_GRUModel)"
  by (simp add: GRUModel_forward_def bind_def ret_apply call_Linear_def size0_def zeros_def
        example_GRUModel_def zero_Linear_1_1_def Linear_forward_def dot_def)

lemma GRUCell_init_first_parameter:
  assumes "0 < input_sz" "0 < hidden_sz"
  shows "hd (GRUCell_parameters (fst (GRUCell_init input_sz hidden_sz g))) =
           - (1 / sqrt (real input_sz)) +
           (1 / sqrt (real input_sz) - - (1 / sqrt (real input_sz))) * draws g (pos g)"
proof -
  have n: "0 < hidden_sz * input_sz + hidden_sz" using assms by simp
  have "hd (fst (uniform_list (hidden_sz * input_sz + hidden_sz) lo hi g))
          = lo + (hi - lo) * draws g (pos g)" for lo hi
    using n by (simp add: uniform_list_def hd_map upt_conv_Cons del: upt_Suc)
  moreover have "Linear_parameters (x_r_fc (fst (GRUCell_init input_sz hidden_sz g))) \<noteq> []"
    using n GRUCell_init_facts(4)[of input_sz hidden_sz g] uniform_list_length[of "hidden_sz * input_sz + hidden_sz"]
    by (metis length_0_conv less_numeral_extra(3))
  ultimately show ?thesis
    using assms GRUCell_init_facts(4)[of input_sz hidden_sz g]
    by (simp add: GRUCell_parameters_def)
qed

section \<open>What a forward pass reads\<close>









section \<open>The claims\<close>

text \<open>
  Claim C1. For a batch \<open>x\<close> of inputs and a previous state \<open>(h, c)\<close> of matching
  dimensions, one step of \<open>LSTMCell.forward\<close> returns the pair \<open>(h_t, c_t)\<close> that the
  equations give: the gates are the sum of the two projections, split into the blocks
  \<open>i, f, g, o\<close> in this order, with sigmoid on \<open>i, f, o\<close> and tanh on \<open>g\<close>,
  \<open>c_t = f * c + i * g\<close> and \<open>h_t = o * tanh c_t\<close>, for every batch row and hidden unit.
\<close>

theorem LSTMCell_forward_equations:
  assumes "wf_LSTMCell cell"
    and "0 < LSTMCell.input_size cell" and "0 < LSTMCell.hidden_size cell"
    and "wf_tensor x" and "ncols x = LSTMCell.input_size cell"
    and "wf_tensor h" and "ncols h = LSTMCell.hidden_size cell" and "nrows h = nrows x"
    and "wf_tensor c" and "ncols c = LSTMCell.hidden_size cell" and "nrows c = nrows x"
  shows "\<exists>h_t c_t.
           LSTMCell_forward x (Some h, Some c) cell = (Inr (h_t, c_t), cell) \<and>
           (h_t, c_t) = LSTM_step_spec cell x h c \<and>
           wf_tensor h_t \<and> ncols h_t = LSTMCell.hidden_size cell \<and> nrows h_t = nrows x \<and>
           wf_tensor c_t \<and> ncols c_t = LSTMCell.hidden_size cell \<and> nrows c_t = nrows x \<and>
           (\<forall>b<nrows x. \<forall>j<LSTMCell.hidden_size cell.
              rows c_t ! b ! j =
                sigmoid (LSTM_gates cell (rows x ! b) (rows h ! b) (LSTMCell.hidden_size cell + j))
                  * rows c ! b ! j +
                sigmoid (LSTM_gates cell (rows x ! b) (rows h ! b) j)
                  * tanh (LSTM_gates cell (rows x ! b) (rows h ! b)
                            (2 * LSTMCell.hidden_size cell + j)) \<and>
              rows h_t ! b ! j =
                sigmoid (LSTM_gates cell (rows x ! b) (rows h ! b)
                           (3 * LSTMCell.hidden_size cell + j))
                  * tanh (rows c_t ! b ! j))"
proof -
  obtain h_t c_t where hc: "LSTM_step_spec cell x h c = (h_t, c_t)"
    by (cases "LSTM_step_spec cell x h c")
  have run: "LSTMCell_forward x (Some h, Some c) cell = (Inr (h_t, c_t), cell)"
    using LSTMCell_forward_step[OF assms] by (simp add: hc)
  have shape: "wf_tensor h_t" "ncols h_t = LSTMCell.hidden_size cell" "nrows h_t = nrows x"
    "wf_tensor c_t" "ncols c_t = LSTMCell.hidden_size cell" "nrows c_t = nrows x"
    using LSTM_step_spec_shape[of cell x h c] by (simp_all add: hc)
  have eqs: "rows c_t ! b ! j =
                sigmoid (LSTM_gates cell (rows x ! b) (rows h ! b) (LSTMCell.hidden_size cell + j))
                  * rows c ! b ! j +
                sigmoid (LSTM_gates cell (rows x ! b) (rows h ! b) j)
                  * tanh (LSTM_gates cell (rows x ! b) (rows h ! b)
                            (2 * LSTMCell.hidden_size cell + j)) \<and>
              rows h_t ! b ! j =
                sigmoid (LSTM_gates cell (rows x ! b) (rows h ! b)
                           (3 * LSTMCell.hidden_size cell + j))
                  * tanh (rows c_t ! b ! j)"
    if "b < nrows x" "j < LSTMCell.hidden_size cell" for b j
    using LSTM_step_spec_nth[OF that, of h c]
    by (simp add: hc LSTM_h_spec_def LSTM_c_spec_def Let_def)
  show ?thesis
    using run hc[symmetric] shape eqs by blast
qed

theorem LSTMCell_forward_equations_witness:
  "wf_LSTMCell example_LSTMCell \<and>
   (\<exists>h_t c_t.
      LSTMCell_forward (Tensor 1 [[1], [0]])
        (Some (Tensor 1 [[0], [0]]), Some (Tensor 1 [[0], [0]])) example_LSTMCell
        = (Inr (h_t, c_t), example_LSTMCell) \<and>
      (h_t, c_t) = LSTM_step_spec example_LSTMCell (Tensor 1 [[1], [0]]) (Tensor 1 [[0], [0]])
                     (Tensor 1 [[0], [0]]))"
proof -
  have sz: "LSTMCell.input_size example_LSTMCell = 1" "LSTMCell.hidden_size example_LSTMCell = 1"
    by (simp_all add: example_LSTMCell_def)
  have "\<exists>h_t c_t.
      LSTMCell_forward (Tensor 1 [[1], [0]])
        (Some (Tensor 1 [[0], [0]]), Some (Tensor 1 [[0], [0]])) example_LSTMCell
        = (Inr (h_t, c_t), example_LSTMCell) \<and>
      (h_t, c_t) = LSTM_step_spec example_LSTMCell (Tensor 1 [[1], [0]]) (Tensor 1 [[0], [0]])
                     (Tensor 1 [[0], [0]])"
    using LSTMCell_forward_equations[of example_LSTMCell "Tensor 1 [[1], [0]]"
            "Tensor 1 [[0], [0]]" "Tensor 1 [[0], [0]]"]
    by (simp add: example_wf sz wf_tensor_def nrows_def) blast
  then show ?thesis using example_wf(3) by (rule conjI[rotated])
qed

text \<open>
  Claim C2. For a batch \<open>x\<close> of inputs and a previous hidden state \<open>h\<close> of matching
  dimensions, one step of \<open>GRUCell.forward\<close> returns the tensor that the equations give:
  \<open>z = sigmoid (Wxz x + Whz h)\<close>, \<open>r = sigmoid (Wxr x + Whr h)\<close>,
  \<open>candidate = tanh (Wxh x + Whh (r * h))\<close> and \<open>h_t = z * h + (1 - z) * candidate\<close>;
  nothing else is returned.
\<close>

theorem GRUCell_forward_equations:
  assumes "wf_GRUCell cell"
    and "wf_tensor x" and "ncols x = GRUCell.input_size cell"
    and "wf_tensor h" and "ncols h = GRUCell.hidden_size cell" and "nrows h = nrows x"
  shows "\<exists>h_t.
           GRUCell_forward x (Some h) cell = (Inr h_t, cell) \<and>
           h_t = GRU_step_spec cell x h \<and>
           wf_tensor h_t \<and> ncols h_t = GRUCell.hidden_size cell \<and> nrows h_t = nrows x \<and>
           (\<forall>b<nrows x. \<forall>j<GRUCell.hidden_size cell.
              rows h_t ! b ! j =
                GRU_z_spec cell (rows x ! b) (rows h ! b) j * rows h ! b ! j +
                (1 - GRU_z_spec cell (rows x ! b) (rows h ! b) j) *
                  tanh (affine (x_h_fc cell) (rows x ! b) j +
                        affine (hr_h_fc cell)
                          (map (\<lambda>k. GRU_r_spec cell (rows x ! b) (rows h ! b) k * rows h ! b ! k)
                               [0..<GRUCell.hidden_size cell]) j))"
proof -
  have run: "GRUCell_forward x (Some h) cell = (Inr (GRU_step_spec cell x h), cell)"
    by (rule GRUCell_forward_step[OF assms])
  have eqs: "rows (GRU_step_spec cell x h) ! b ! j =
                GRU_z_spec cell (rows x ! b) (rows h ! b) j * rows h ! b ! j +
                (1 - GRU_z_spec cell (rows x ! b) (rows h ! b) j) *
                  tanh (affine (x_h_fc cell) (rows x ! b) j +
                        affine (hr_h_fc cell)
                          (map (\<lambda>k. GRU_r_spec cell (rows x ! b) (rows h ! b) k * rows h ! b ! k)
                               [0..<GRUCell.hidden_size cell]) j)"
    if "b < nrows x" "j < GRUCell.hidden_size cell" for b j
    using GRU_step_spec_nth[OF that, of h]
    by (simp add: GRU_h_spec_def GRU_candidate_spec_def)
  show ?thesis
    using run GRU_step_spec_shape[of cell x h] eqs by blast
qed

theorem GRUCell_forward_equations_witness:
  "wf_GRUCell example_GRUCell \<and>
   (\<exists>h_t.
      GRUCell_forward (Tensor 1 [[1], [0]]) (Some (Tensor 1 [[0], [0]])) example_GRUCell
        = (Inr h_t, example_GRUCell) \<and>
      h_t = GRU_step_spec example_GRUCell (Tensor 1 [[1], [0]]) (Tensor 1 [[0], [0]]))"
proof -
  have sz: "GRUCell.input_size example_GRUCell = 1" "GRUCell.hidden_size example_GRUCell = 1"
    by (simp_all add: example_GRUCell_def)
  have "\<exists>h_t.
      GRUCell_forward (Tensor 1 [[1], [0]]) (Some (Tensor 1 [[0], [0]])) example_GRUCell
        = (Inr h_t, example_GRUCell) \<and>
      h_t = GRU_step_spec example_GRUCell (Tensor 1 [[1], [0]]) (Tensor 1 [[0], [0]])"
    using GRUCell_forward_equations[of example_GRUCell "Tensor 1 [[1], [0]]" "Tensor 1 [[0], [0]]"]
    by (simp add: example_wf sz wf_tensor_def nrows_def)
  then show ?thesis using example_wf(5) by (rule conjI[rotated])
qed

text \<open>
  What \<open>LSTMCell.__init__\<close> does through \<open>reset_parameters\<close>: with a positive hidden
  size the construction succeeds, and the parameters, read in the order weight and bias of
  the input projection, then weight and bias of the hidden projection, are consecutive
  fresh draws of the generator, each mapped into \<open>[-s, s]\<close> with
  \<open>s = sqrt (3 / hidden_size)\<close>; the input size plays no part in \<open>s\<close>.
\<close>

lemma LSTMCell_init_uniform:
  fixes input_sz hidden_sz :: nat
  assumes "0 < hidden_sz" and "unit_draws g"
  shows "\<exists>cell g'.
           LSTMCell_init input_sz hidden_sz g = Inr (cell, g') \<and> wf_LSTMCell cell \<and>
           LSTMCell_parameters cell =
             fst (uniform_list
                    (4 * hidden_sz * input_sz + 4 * hidden_sz +
                     (4 * hidden_sz * hidden_sz + 4 * hidden_sz))
                    (- sqrt (3 / real hidden_sz)) (sqrt (3 / real hidden_sz))
                    (Generator (draws g)
                       (pos g + (4 * hidden_sz * input_sz + 4 * hidden_sz +
                                 (4 * hidden_sz * hidden_sz + 4 * hidden_sz))))) \<and>
           (\<forall>v\<in>set (LSTMCell_parameters cell).
              - sqrt (3 / real hidden_sz) \<le> v \<and> v \<le> sqrt (3 / real hidden_sz))"
proof -
  define n where "n = 4 * hidden_sz * input_sz + 4 * hidden_sz +
                      (4 * hidden_sz * hidden_sz + 4 * hidden_sz)"
  define s where "s = sqrt (3 / real hidden_sz)"
  from LSTMCell_init_facts[OF assms(1), of input_sz g]
  obtain cell where cell:
      "LSTMCell_init input_sz hidden_sz g = Inr (cell, Generator (draws g) (pos g + n + n))"
      "wf_LSTMCell cell"
      "LSTMCell_parameters cell = fst (uniform_list n (- s) s (Generator (draws g) (pos g + n)))"
    unfolding n_def s_def by blast
  have "0 \<le> s" by (simp add: s_def)
  then have le: "- s \<le> s" by simp
  have u: "unit_draws (Generator (draws g) (pos g + n))"
    using assms(2) by (simp add: unit_draws_Generator)
  have "\<forall>v\<in>set (LSTMCell_parameters cell). - s \<le> v \<and> v \<le> s"
    unfolding cell(3) using uniform_list_range[OF u le] by blast
  then show ?thesis
    using cell unfolding n_def s_def by blast
qed

text \<open>
  Claim C3. At construction of a cell, every weight and bias element of every projection
  of the cell, for \<open>LSTMCell\<close> and for \<open>GRUCell\<close>, is drawn from \<open>[-s, s]\<close> with
  \<open>s = sqrt (3 / hidden_size)\<close>. \<open>LSTMCell\<close> does this; \<open>GRUCell.__init__\<close> does not:
  it never re-draws what \<open>torch.nn.Linear\<close> put into its six layers. For
  \<open>GRUCell(1, 20)\<close> and a generator whose draws are all \<open>19 / 20\<close>, a legal draw, the
  parameters contain \<open>9 / 10\<close>, which lies outside \<open>[-s, s]\<close> since
  \<open>sqrt (3 / 20) < 9 / 10\<close>.
\<close>

theorem GRUCell_init_keeps_default:
  "unit_draws (constant_generator (19 / 20)) \<and>
   9 / 10 \<in> set (GRUCell_parameters (fst (GRUCell_init 1 20 (constant_generator (19 / 20))))) \<and>
   sqrt (3 / 20) < 9 / 10"
proof -
  have u: "unit_draws (constant_generator (19 / 20))"
    by (rule unit_draws_constant) simp_all
  let ?ps = "GRUCell_parameters (fst (GRUCell_init 1 20 (constant_generator (19 / 20))))"
  have hd: "hd ?ps = 9 / 10"
    using GRUCell_init_first_parameter[of 1 20 "constant_generator (19 / 20)"]
    by (simp add: constant_generator_def)
  have "length (Linear_parameters (x_r_fc (fst (GRUCell_init 1 20 (constant_generator (19 / 20))))))
          = 20 * 1 + 20"
    by (simp only: GRUCell_init_facts(4) uniform_list_length)
  then have "Linear_parameters (x_r_fc (fst (GRUCell_init 1 20 (constant_generator (19 / 20))))) \<noteq> []"
    by auto
  then have ne: "?ps \<noteq> []"
    by (simp add: GRUCell_parameters_def)
  have mem: "9 / 10 \<in> set ?ps"
    using hd_in_set[OF ne] unfolding hd .
  have "sqrt (3 / 20) < sqrt ((9 / 10)\<^sup>2)"
    by (simp add: power2_eq_square)
  then have "sqrt (3 / 20) < 9 / 10" by simp
  with u mem show ?thesis by simp
qed

text \<open>
  Claim C4. The sequence reduction starts from zero state vectors (\<open>h\<close>, and \<open>c\<close> for the
  LSTM), calls the cell once for each time step \<open>0, 1, ..., size1 x - 1\<close> in this order,
  each call on the state the previous one returned, and the model's output is the output
  layer applied to the last hidden state, with no activation; nothing but this output is
  returned. The output layer maps \<open>hidden_size\<close> to the \<open>output_size\<close> given at
  construction, which the notebook sets to 1.
\<close>

theorem model_forward_reduction:
  fixes input_sz hidden_sz output_sz :: nat
  shows
  "fst (LSTMModel_forward x m) =
     (case LSTM_state_after m x (size1 x) of
        Inl e \<Rightarrow> Inl e
      | Inr (h, c) \<Rightarrow> Linear_forward (LSTMModel.fc m) (Some h)) \<and>
   fst (GRUModel_forward x gm) =
     (case GRU_state_after gm x (size1 x) of
        Inl e \<Rightarrow> Inl e
      | Inr h \<Rightarrow> Linear_forward (GRUModel.fc gm) (Some h)) \<and>
   (0 < hidden_sz \<longrightarrow>
      (\<exists>m' g'. LSTMModel_init input_sz hidden_sz output_sz g = Inr (m', g') \<and>
         wf_LSTMModel m' \<and> in_features (LSTMModel.fc m') = hidden_sz \<and>
         out_features (LSTMModel.fc m') = output_sz)) \<and>
   wf_GRUModel (fst (GRUModel_init input_sz hidden_sz output_sz g)) \<and>
   in_features (GRUModel.fc (fst (GRUModel_init input_sz hidden_sz output_sz g))) = hidden_sz \<and>
   out_features (GRUModel.fc (fst (GRUModel_init input_sz hidden_sz output_sz g))) = output_sz"
proof -
  have lstm: "\<exists>m' g'. LSTMModel_init input_sz hidden_sz output_sz g = Inr (m', g') \<and>
         wf_LSTMModel m' \<and> in_features (LSTMModel.fc m') = hidden_sz \<and>
         out_features (LSTMModel.fc m') = output_sz" if "0 < hidden_sz"
  proof -
    from LSTMCell_init_facts[OF that, of input_sz g]
    obtain cell g1 where cell: "LSTMCell_init input_sz hidden_sz g = Inr (cell, g1)"
        "wf_LSTMCell cell" "LSTMCell.hidden_size cell = hidden_sz"
      by blast
    obtain l g2 where l: "Linear_init hidden_sz output_sz g1 = (l, g2)"
      by (cases "Linear_init hidden_sz output_sz g1")
    note f = Linear_init_facts(1-3)[OF l]
    have "LSTMModel_init input_sz hidden_sz output_sz g =
            Inr (\<lparr>LSTMModel.hidden_size = hidden_sz, lstm = cell, LSTMModel.fc = l\<rparr>, g2)"
      by (simp add: LSTMModel_init_def cell(1) l)
    moreover have "wf_LSTMModel \<lparr>LSTMModel.hidden_size = hidden_sz, lstm = cell, LSTMModel.fc = l\<rparr>"
      using cell(2,3) f by (simp add: wf_LSTMModel_def)
    ultimately show ?thesis using f by simp
  qed
  obtain cell g1 where cell: "GRUCell_init input_sz hidden_sz g = (cell, g1)"
    by (cases "GRUCell_init input_sz hidden_sz g")
  obtain l g2 where l: "Linear_init hidden_sz output_sz g1 = (l, g2)"
    by (cases "Linear_init hidden_sz output_sz g1")
  note f = Linear_init_facts(1-3)[OF l]
  have gm: "fst (GRUModel_init input_sz hidden_sz output_sz g) =
              \<lparr>GRUModel.hidden_size = hidden_sz, gru = cell, GRUModel.fc = l\<rparr>"
    by (simp add: GRUModel_init_def cell l)
  have c: "wf_GRUCell cell" "GRUCell.hidden_size cell = hidden_sz"
    using GRUCell_init_facts(1,3)[of input_sz hidden_sz g] by (simp_all add: cell)
  have gru: "wf_GRUModel (fst (GRUModel_init input_sz hidden_sz output_sz g))"
    "in_features (GRUModel.fc (fst (GRUModel_init input_sz hidden_sz output_sz g))) = hidden_sz"
    "out_features (GRUModel.fc (fst (GRUModel_init input_sz hidden_sz output_sz g))) = output_sz"
    unfolding gm using c f by (simp_all add: wf_GRUModel_def)
  show ?thesis
    using LSTMModel_forward_reduce[of x m] GRUModel_forward_reduce[of x gm] lstm gru
    by blast
qed

theorem model_forward_reduction_witness:
  "fst (LSTMModel_forward (Tensor3 2 1 [[[1], [0]]]) example_LSTMModel) =
     (case LSTM_state_after example_LSTMModel (Tensor3 2 1 [[[1], [0]]]) 2 of
        Inl e \<Rightarrow> Inl e
      | Inr (h, c) \<Rightarrow> Linear_forward (LSTMModel.fc example_LSTMModel) (Some h)) \<and>
   (\<exists>m' g'. LSTMModel_init 1 20 1 (constant_generator (1 / 2)) = Inr (m', g') \<and>
      wf_LSTMModel m' \<and> in_features (LSTMModel.fc m') = 20 \<and>
      out_features (LSTMModel.fc m') = 1)"
  using model_forward_reduction[where x = "Tensor3 2 1 [[[1], [0]]]" and m = example_LSTMModel
          and hidden_sz = 20 and input_sz = 1 and output_sz = 1
          and g = "constant_generator (1 / 2)"]
  by simp



text \<open>
  Claim C6. Batch independence: the forward pass on a batch made of two batches of
  sequences of the same length returns, row for row, what the forward passes on the two
  parts return (and raises exactly when they do); in particular for a batch of two
  sequences and each sequence alone.
\<close>

theorem batch_independence:
  assumes "wf_LSTMModel m" and "wf_GRUModel gm" and "wf_tensor3 (Tensor3 T D (xs @ ys))"
  shows "fst (LSTMModel_forward (Tensor3 T D (xs @ ys)) m) =
           stack (fst (LSTMModel_forward (Tensor3 T D xs) m))
                 (fst (LSTMModel_forward (Tensor3 T D ys) m)) \<and>
         fst (GRUModel_forward (Tensor3 T D (xs @ ys)) gm) =
           stack (fst (GRUModel_forward (Tensor3 T D xs) gm))
                 (fst (GRUModel_forward (Tensor3 T D ys) gm))"
  using LSTMModel_forward_cat[OF assms(1,3)] GRUModel_forward_cat[OF assms(2,3)]
  by (rule conjI)

theorem batch_independence_witness:
  "wf_tensor3 (Tensor3 2 1 ([[[1], [0]]] @ [[[0], [1]]])) \<and>
   fst (LSTMModel_forward (Tensor3 2 1 ([[[1], [0]]] @ [[[0], [1]]])) example_LSTMModel) =
     stack (fst (LSTMModel_forward (Tensor3 2 1 [[[1], [0]]]) example_LSTMModel))
           (fst (LSTMModel_forward (Tensor3 2 1 [[[0], [1]]]) example_LSTMModel)) \<and>
   fst (GRUModel_forward (Tensor3 2 1 ([[[1], [0]]] @ [[[0], [1]]])) example_GRUModel) =
     stack (fst (GRUModel_forward (Tensor3 2 1 [[[1], [0]]]) example_GRUModel))
           (fst (GRUModel_forward (Tensor3 2 1 [[[0], [1]]]) example_GRUModel))"
proof -
  have x: "wf_tensor3 (Tensor3 2 1 ([[[1], [0]]] @ [[[0], [1]]]))"
    by (simp add: wf_tensor3_def)
  from x batch_independence[OF example_wf(4) example_wf(6) x] show ?thesis
    by (rule conjI)
qed



text \<open>
  Claim C8, as the code has it. When the input has at least one time step and its last
  dimension differs from the configured input size, \<open>forward\<close> raises the shape error at
  the first cell step and the model is as before the call. (With no time step the cell is
  never called, and \<open>forward\<close> returns the output layer's value on the zero state.)
\<close>

theorem forward_width_mismatch:
  assumes "wf_LSTMModel m" and "wf_GRUModel gm" and "0 < size1 x"
    and "size2 x \<noteq> LSTMCell.input_size (lstm m)"
    and "size2 x \<noteq> GRUCell.input_size (gru gm)"
  shows "LSTMModel_forward x m = (Inl ShapeMismatchError, m) \<and>
         GRUModel_forward x gm = (Inl ShapeMismatchError, gm)"
proof
  have "in_features (x_fc (lstm m)) = LSTMCell.input_size (lstm m)"
    using assms(1) by (simp add: wf_LSTMModel_def wf_LSTMCell_def)
  then show "LSTMModel_forward x m = (Inl ShapeMismatchError, m)"
    using assms(3,4) by (rule LSTMModel_forward_mismatch)
next
  have "in_features (x_z_fc (gru gm)) = GRUCell.input_size (gru gm)"
    using assms(2) by (simp add: wf_GRUModel_def wf_GRUCell_def)
  then show "GRUModel_forward x gm = (Inl ShapeMismatchError, gm)"
    using assms(3,5) by (rule GRUModel_forward_mismatch)
qed

theorem forward_width_mismatch_witness:
  "size2 (Tensor3 1 5 [[[0, 0, 0, 0, 0]]]) \<noteq> LSTMCell.input_size (lstm example_LSTMModel) \<and>
   LSTMModel_forward (Tensor3 1 5 [[[0, 0, 0, 0, 0]]]) example_LSTMModel
     = (Inl ShapeMismatchError, example_LSTMModel) \<and>
   GRUModel_forward (Tensor3 1 5 [[[0, 0, 0, 0, 0]]]) example_GRUModel
     = (Inl ShapeMismatchError, example_GRUModel)"
proof -
  have sz: "LSTMCell.input_size (lstm example_LSTMModel) = 1"
    "GRUCell.input_size (gru example_GRUModel) = 1"
    by (simp_all add: example_LSTMModel_def example_LSTMCell_def example_GRUModel_def
          example_GRUCell_def)
  show ?thesis
    using forward_width_mismatch[of example_LSTMModel example_GRUModel
            "Tensor3 1 5 [[[0, 0, 0, 0, 0]]]"]
    by (simp add: example_wf sz)
qed

theorem forward_zero_steps_returns:
  "wf_LSTMModel example_LSTMModel \<and> wf_tensor3 (Tensor3 0 5 [[]]) \<and>
   size2 (Tensor3 0 5 [[]]) \<noteq> LSTMCell.input_size (lstm example_LSTMModel) \<and>
   LSTMModel_forward (Tensor3 0 5 [[]]) example_LSTMModel
     = (Inr (Tensor 1 [[0]]), example_LSTMModel)"
  by (simp add: example_wf example_LSTMModel_zero_steps wf_tensor3_def)
     (simp add: example_LSTMModel_def example_LSTMCell_def)

text \<open>
  Claim C9. A forward pass leaves every parameter as it was: the cell step, the
  sequence reduction and the output projection of both models hand the module back
  unchanged, whether they return or raise.
\<close>

theorem forward_parameters_unchanged:
  "snd (LSTMCell_forward x_t hidden cell) = cell \<and>
   snd (GRUCell_forward x_t h_t_1 gcell) = gcell \<and>
   snd (LSTMModel_loop x idx state m) = m \<and>
   snd (GRUModel_loop x idx h_t gm) = gm \<and>
   snd (LSTMModel_forward x m) = m \<and>
   snd (GRUModel_forward x gm) = gm"
  by (simp add: LSTMCell_forward_frame GRUCell_forward_frame LSTMModel_loop_frame
        GRUModel_loop_frame LSTMModel_forward_frame GRUModel_forward_frame)

text \<open>
  Claim C10, as the code has it. A cell's \<open>forward\<close> called with a previous state that is
  \<open>None\<close> (the default of the signature) always raises, and never starts from zeros; the
  zero state of shape \<open>batch \<times> hidden_size\<close> is made by the model's \<open>forward\<close>, which hands
  it to the first cell step. A cell step that returns was therefore given state tensors;
  for a well-formed cell the hidden state has \<open>hidden_size\<close> columns, while its number of
  rows, and the rows and columns of the LSTM memory, need only be compatible with the batch
  under broadcasting: equal to the other size, or one of the two sizes is 1.
\<close>

theorem cell_forward_requires_state:
  "(h0 = None \<or> c0 = None \<longrightarrow> (\<exists>e. fst (LSTMCell_forward x0 (h0, c0) cell0) = Inl e)) \<and>
   (\<exists>e. fst (GRUCell_forward x0 None gcell0) = Inl e) \<and>
   (wf_LSTMCell cell \<and> fst (LSTMCell_forward x (h, c) cell) = Inr r \<longrightarrow>
      (\<exists>h' c'. h = Some h' \<and> c = Some c' \<and>
         ncols h' = LSTMCell.hidden_size cell \<and>
         (nrows h' = nrows x \<or> nrows h' = 1 \<or> nrows x = 1) \<and>
         (ncols c' = LSTMCell.hidden_size cell \<or> ncols c' = 1 \<or>
          LSTMCell.hidden_size cell = 1) \<and>
         (nrows c' = nrows x \<or> nrows c' = nrows h' \<or> nrows c' = 1 \<or>
          (nrows x = 1 \<and> nrows h' = 1)))) \<and>
   (wf_GRUCell gcell \<and> fst (GRUCell_forward gx gh gcell) = Inr gr \<longrightarrow>
      (\<exists>h'. gh = Some h' \<and> ncols h' = GRUCell.hidden_size gcell \<and>
         (nrows h' = nrows gx \<or> nrows h' = 1 \<or> nrows gx = 1))) \<and>
   fst (LSTMModel_forward X m) =
     (case fst (LSTMModel_loop X [0..<size1 X]
                  (zeros (size0 X) (LSTMModel.hidden_size m),
                   zeros (size0 X) (LSTMModel.hidden_size m)) m) of
        Inl e \<Rightarrow> Inl e
      | Inr (h, c) \<Rightarrow> Linear_forward (LSTMModel.fc m) (Some h)) \<and>
   fst (GRUModel_forward X gm) =
     (case fst (GRUModel_loop X [0..<size1 X] (zeros (size0 X) (GRUModel.hidden_size gm)) gm) of
        Inl e \<Rightarrow> Inl e
      | Inr h \<Rightarrow> Linear_forward (GRUModel.fc gm) (Some h))"
proof (intro conjI impI)
  assume "h0 = None \<or> c0 = None"
  from LSTMCell_forward_None[OF this, of x0 cell0]
  show "\<exists>e. fst (LSTMCell_forward x0 (h0, c0) cell0) = Inl e" by blast
next
  from GRUCell_forward_None[of x0 gcell0]
  show "\<exists>e. fst (GRUCell_forward x0 None gcell0) = Inl e" by blast
next
  assume a: "wf_LSTMCell cell \<and> fst (LSTMCell_forward x (h, c) cell) = Inr r"
  from LSTMCell_forward_state[of x h c cell r] a
  obtain h' c' where st: "h = Some h'" "c = Some c'" "ncols h' = in_features (h_fc cell)"
      "nrows h' = nrows x \<or> nrows h' = 1 \<or> nrows x = 1"
    by blast
  have w: "ncols h' = LSTMCell.hidden_size cell"
    using a st(3) by (simp add: wf_LSTMCell_def)
  from LSTMCell_forward_memory[of cell x h' c' r] a st(1,2)
  have mem: "(ncols c' = LSTMCell.hidden_size cell \<or> ncols c' = 1 \<or>
              LSTMCell.hidden_size cell = 1) \<and>
             (nrows c' = nrows x \<or> nrows c' = nrows h' \<or> nrows c' = 1 \<or>
              (nrows x = 1 \<and> nrows h' = 1))"
    by simp
  show "\<exists>h' c'. h = Some h' \<and> c = Some c' \<and>
         ncols h' = LSTMCell.hidden_size cell \<and>
         (nrows h' = nrows x \<or> nrows h' = 1 \<or> nrows x = 1) \<and>
         (ncols c' = LSTMCell.hidden_size cell \<or> ncols c' = 1 \<or>
          LSTMCell.hidden_size cell = 1) \<and>
         (nrows c' = nrows x \<or> nrows c' = nrows h' \<or> nrows c' = 1 \<or>
          (nrows x = 1 \<and> nrows h' = 1))"
    using st(1,2,4) w mem by blast
next
  assume a: "wf_GRUCell gcell \<and> fst (GRUCell_forward gx gh gcell) = Inr gr"
  from GRUCell_forward_state[of gx gh gcell gr] a
  obtain h' where st: "gh = Some h'" "ncols h' = in_features (h_z_fc gcell)"
      "nrows h' = nrows gx \<or> nrows h' = 1 \<or> nrows gx = 1"
    by blast
  have "ncols h' = GRUCell.hidden_size gcell"
    using a st(2) by (simp add: wf_GRUCell_def)
  then show "\<exists>h'. gh = Some h' \<and> ncols h' = GRUCell.hidden_size gcell \<and>
         (nrows h' = nrows gx \<or> nrows h' = 1 \<or> nrows gx = 1)"
    using st(1,3) by blast
next
  show "fst (LSTMModel_forward X m) =
     (case fst (LSTMModel_loop X [0..<size1 X]
                  (zeros (size0 X) (LSTMModel.hidden_size m),
                   zeros (size0 X) (LSTMModel.hidden_size m)) m) of
        Inl e \<Rightarrow> Inl e
      | Inr (h, c) \<Rightarrow> Linear_forward (LSTMModel.fc m) (Some h))"
    by (rule LSTMModel_forward_fst)
next
  show "fst (GRUModel_forward X gm) =
     (case fst (GRUModel_loop X [0..<size1 X] (zeros (size0 X) (GRUModel.hidden_size gm)) gm) of
        Inl e \<Rightarrow> Inl e
      | Inr h \<Rightarrow> Linear_forward (GRUModel.fc gm) (Some h))"
    by (rule GRUModel_forward_fst)
qed

theorem cell_forward_requires_state_witness:
  "(\<exists>e. fst (LSTMCell_forward (Tensor 1 [[0], [0]]) (None, None) example_LSTMCell) = Inl e) \<and>
   wf_LSTMCell example_LSTMCell \<and>
   fst (LSTMCell_forward (Tensor 1 [[0], [0]]) (Some (Tensor 1 [[0]]), Some (Tensor 1 [[0]]))
          example_LSTMCell) = Inr (Tensor 1 [[0], [0]], Tensor 1 [[0], [0]]) \<and>
   ncols (Tensor 1 [[0]]) = LSTMCell.hidden_size example_LSTMCell \<and>
   wf_GRUCell example_GRUCell \<and>
   fst (GRUCell_forward (Tensor 1 [[0], [0]]) (Some (Tensor 1 [[0]])) example_GRUCell)
     = Inr (Tensor 1 [[0], [0]]) \<and>
   ncols (Tensor 1 [[0]]) = GRUCell.hidden_size example_GRUCell"
proof -
  note t = cell_forward_requires_state[where ?h0.0 = None and ?c0.0 = None
          and ?x0.0 = "Tensor 1 [[0], [0]]" and ?cell0.0 = example_LSTMCell
          and gcell0 = example_GRUCell
          and cell = example_LSTMCell and x = "Tensor 1 [[0], [0]]"
          and h = "Some (Tensor 1 [[0]])" and c = "Some (Tensor 1 [[0]])"
          and r = "(Tensor 1 [[0], [0]], Tensor 1 [[0], [0]])"
          and gcell = example_GRUCell and gx = "Tensor 1 [[0], [0]]"
          and gh = "Some (Tensor 1 [[0]])" and gr = "Tensor 1 [[0], [0]]"]
  have l: "fst (LSTMCell_forward (Tensor 1 [[0], [0]]) (Some (Tensor 1 [[0]]), Some (Tensor 1 [[0]]))
                  example_LSTMCell) = Inr (Tensor 1 [[0], [0]], Tensor 1 [[0], [0]])"
    by (simp only: example_LSTMCell_broadcast fst_conv)
  have g: "fst (GRUCell_forward (Tensor 1 [[0], [0]]) (Some (Tensor 1 [[0]])) example_GRUCell)
             = Inr (Tensor 1 [[0], [0]])"
    by (simp only: example_GRUCell_broadcast fst_conv)
  have n: "\<exists>e. fst (LSTMCell_forward (Tensor 1 [[0], [0]]) (None, None) example_LSTMCell) = Inl e"
    using t by blast
  have lh: "ncols (Tensor 1 [[0]]) = LSTMCell.hidden_size example_LSTMCell"
    using t l example_wf(3) by blast
  have gh: "ncols (Tensor 1 [[0]]) = GRUCell.hidden_size example_GRUCell"
    using t g example_wf(5) by blast
  show ?thesis
    using n example_wf(3) l lh example_wf(5) g gh by (intro conjI)
qed

theorem cell_forward_broadcast_state:
  "fst (LSTMCell_forward (Tensor 1 [[0], [0]]) (Some (Tensor 1 [[0]]), Some (Tensor 1 [[0]]))
          example_LSTMCell) = Inr (Tensor 1 [[0], [0]], Tensor 1 [[0], [0]]) \<and>
   fst (GRUCell_forward (Tensor 1 [[0], [0]]) (Some (Tensor 1 [[0]])) example_GRUCell)
     = Inr (Tensor 1 [[0], [0]]) \<and>
   nrows (Tensor 1 [[0], [0]]) = 2 \<and> nrows (Tensor 1 [[0]]) = 1"
proof -
  have l: "fst (LSTMCell_forward (Tensor 1 [[0], [0]]) (Some (Tensor 1 [[0]]), Some (Tensor 1 [[0]]))
                  example_LSTMCell) = Inr (Tensor 1 [[0], [0]], Tensor 1 [[0], [0]])"
    by (simp only: example_LSTMCell_broadcast fst_conv)
  have g: "fst (GRUCell_forward (Tensor 1 [[0], [0]]) (Some (Tensor 1 [[0]])) example_GRUCell)
             = Inr (Tensor 1 [[0], [0]])"
    by (simp only: example_GRUCell_broadcast fst_conv)
  have n: "nrows (Tensor 1 [[0], [0]]) = 2" "nrows (Tensor 1 [[0]]) = 1"
    by (simp_all add: nrows_def)
  show ?thesis using l g n by (intro conjI)
qed

end
